theory Spec2Isabelle
  imports Complex_Main
begin

section \<open>Outcomes of Python code\<close>

text \<open>
  The two scripts of the repository (\<^verbatim>\<open>brainflow_robot_control.py\<close> and
  \<^verbatim>\<open>emotiv_control.py\<close>) are orchestration code: every statement of interest is a
  call into an external library (BrainFlow, Cortex, the Go2 WebRTC driver, asyncio,
  logging). The embedding keeps the control flow of the scripts exactly (sequencing,
  \<^verbatim>\<open>try/except Exception\<close>, \<^verbatim>\<open>try/finally\<close>, the \<^verbatim>\<open>if\<close> guards, the
  \<^verbatim>\<open>while self.running\<close> loops) and leaves the behaviour of the external calls to a
  parameter, the \<open>world\<close>.

  Python distinguishes exceptions that \<^verbatim>\<open>except Exception\<close> catches from those it does
  not. \<open>Error\<close> stands for any instance of \<^verbatim>\<open>Exception\<close>; \<open>Keyboard_interrupt\<close> and
  \<open>Cancelled\<close> are the two \<^verbatim>\<open>BaseException\<close>s an interrupted asyncio program sees.
\<close>

datatype exn = Error | Keyboard_interrupt | Cancelled

fun is_Exception :: "exn \<Rightarrow> bool" where
  "is_Exception Error = True"
| "is_Exception Keyboard_interrupt = False"
| "is_Exception Cancelled = False"

fun is_KeyboardInterrupt :: "exn \<Rightarrow> bool" where
  "is_KeyboardInterrupt Keyboard_interrupt = True"
| "is_KeyboardInterrupt Error = False"
| "is_KeyboardInterrupt Cancelled = False"

text \<open>
  A piece of code returns a value, raises, or is still inside one of the
  \<^verbatim>\<open>while self.running\<close> loops when the fuel given to that loop is used up
  (\<open>Unfinished\<close>). \<open>Unfinished\<close> is not an exception: no handler catches it and no
  \<^verbatim>\<open>finally\<close> block runs after it, because the program has not left the loop.
\<close>

datatype 'a res = Ret 'a | Raise exn | Unfinished

section \<open>The external calls and the trace\<close>

text \<open>
  One constructor for each external call site of the two scripts. The two
  \<^verbatim>\<open>publish_request_new\<close> shapes are \<open>Motion_switcher name\<close> (topic
  \<^verbatim>\<open>RTC_TOPIC["MOTION_SWITCHER"]\<close>, api id 1002, parameter \<^verbatim>\<open>{"name": name}\<close>) and
  \<open>Sport_move x y z\<close> (topic \<^verbatim>\<open>RTC_TOPIC["SPORT_MOD"]\<close>, api id \<^verbatim>\<open>SPORT_CMD["Move"]\<close>,
  parameter \<^verbatim>\<open>{"x": x, "y": y, "z": z}\<close>). \<open>Predict\<close> stands for lines 135-155 of
  \<^verbatim>\<open>process_brain_data\<close> (channel selection, band-pass filter, band powers and the
  classifier), which the controller treats as one opaque score computation.
  \<open>Board_new\<close>, \<open>Model_new\<close> and \<open>Conn_new\<close> are the constructor calls
  \<^verbatim>\<open>BoardShim(...)\<close>, \<^verbatim>\<open>MLModel(...)\<close> and \<^verbatim>\<open>Go2WebRTCConnection(...)\<close>;
  \<open>Sleep t\<close> is \<^verbatim>\<open>asyncio.sleep(t)\<close>; the other constructors carry the name of the
  method they stand for. Every \<^verbatim>\<open>await\<close> of the scripts is a call the single task
  waits for, so the calls happen one after the other, in program order.
\<close>

datatype call =
    Board_new
  | Prepare_session
  | Start_stream
  | Model_new
  | Model_prepare
  | Get_current_board_data int
  | Predict
  | Stop_stream
  | Release_session
  | Model_release
  | Conn_new
  | Connect
  | Motion_switcher string
  | Sport_move real real real
  | Sleep real
  | Disconnect
  | Cortex_open
  | Request_access
  | Authenticate
  | Query_headsets
  | Connect_headset
  | Create_session
  | Query_profile
  | Setup_profile string
  | Train_mc string
  | Save_profile
  | Load_profile string
  | Subscribe
  | Receive_data
  | Cortex_close

text \<open>
  The trace lists, oldest first, what the program did to the outside: each external call
  with its outcome (\<open>None\<close>: it returned; \<open>Some e\<close>: it raised \<open>e\<close>), each log
  line, the \<^verbatim>\<open>print\<close> of \<^verbatim>\<open>main\<close>, and a marker for each entry into
  \<^verbatim>\<open>cleanup\<close>.
\<close>

datatype event =
    Ext call "exn option"
  | Log_info string
  | Log_error string
  | Print_line string
  | Invoke_cleanup

text \<open>Python values that may sit in a mental-command dictionary.\<close>

datatype pyval = PNone | PBool bool | PNum real | PStr string | POther

type_synonym pydict = "(string \<times> pyval) list"

text \<open>
  The array returned by \<^verbatim>\<open>get_current_board_data\<close>: rows of samples. numpy's
  \<^verbatim>\<open>size\<close> is the number of elements.
\<close>

type_synonym board_data = "real list list"

definition data_size :: "board_data \<Rightarrow> nat" where
  "data_size d = length (concat d)"

text \<open>
  The world decides, from the trace so far, what each external call does: whether a call
  raises, and what the calls that return a value return. The score is a real number:
  Python compares floats exactly, and a score that is not a number compares false with
  every threshold, as a score below it does.
\<close>

record world =
  raises :: "event list \<Rightarrow> call \<Rightarrow> exn option"
  get_current_board_data :: "event list \<Rightarrow> exn + board_data"
  predict :: "event list \<Rightarrow> board_data \<Rightarrow> exn + real"
  query_headsets :: "event list \<Rightarrow> exn + pydict list"
  query_profile :: "event list \<Rightarrow> exn + string list"
  receive_data :: "event list \<Rightarrow> exn + pydict option"

section \<open>Configuration and controller state\<close>

record bci_config =
  board_id :: int
  serial_port :: string
  ip_address :: string
  command_threshold :: real
  window_size :: int
  sampling_rate :: int

record robot_config =
  ip :: string
  move_speed :: real
  move_duration :: real

record emotiv_config =
  client_id :: string
  client_secret :: string
  emotiv_command_threshold :: real
  profile_name :: string

text \<open>
  The fields both controller classes share. A handle field is \<open>True\<close> when the
  attribute holds an object (which is truthy) and \<open>False\<close> when it is \<^verbatim>\<open>None\<close>.
\<close>

record controller =
  robot_conn :: bool
  running :: bool
  trace :: "event list"

record brainflow_controller = controller +
  board :: bool
  concentration_model :: bool

record emotiv_controller = controller +
  cortex :: bool

type_synonym ('a, 's) prog = "'s \<Rightarrow> 'a res \<times> 's"

section \<open>Control flow\<close>

definition ret :: "'a \<Rightarrow> ('a, 's) prog" where
  "ret a s = (Ret a, s)"

definition raise :: "exn \<Rightarrow> ('a, 's) prog" where
  "raise e s = (Raise e, s)"

text \<open>Statement sequencing: the second statement runs only when the first returned.\<close>

fun bind_res :: "'a res \<times> 's \<Rightarrow> ('a \<Rightarrow> ('b, 's) prog) \<Rightarrow> 'b res \<times> 's" where
  "bind_res (Ret a, s) f = f a s"
| "bind_res (Raise e, s) f = (Raise e, s)"
| "bind_res (Unfinished, s) f = (Unfinished, s)"

definition bind :: "('a, 's) prog \<Rightarrow> ('a \<Rightarrow> ('b, 's) prog) \<Rightarrow> ('b, 's) prog" where
  "bind m f s = bind_res (m s) f"

definition andthen :: "(unit, 's) prog \<Rightarrow> ('b, 's) prog \<Rightarrow> ('b, 's) prog" where
  "andthen m n = bind m (\<lambda>_. n)"

text \<open>\<^verbatim>\<open>try: m  except C as e: h e\<close>, with \<open>catches\<close> deciding membership in \<^verbatim>\<open>C\<close>.\<close>

fun except_res :: "'a res \<times> 's \<Rightarrow> (exn \<Rightarrow> bool) \<Rightarrow> (exn \<Rightarrow> ('a, 's) prog) \<Rightarrow> 'a res \<times> 's" where
  "except_res (Raise e, s) catches h = (if catches e then h e s else (Raise e, s))"
| "except_res (Ret a, s) catches h = (Ret a, s)"
| "except_res (Unfinished, s) catches h = (Unfinished, s)"

definition try_except :: "('a, 's) prog \<Rightarrow> (exn \<Rightarrow> bool) \<Rightarrow> (exn \<Rightarrow> ('a, 's) prog) \<Rightarrow> ('a, 's) prog" where
  "try_except m catches h s = except_res (m s) catches h"

text \<open>
  \<^verbatim>\<open>try: m  finally: fin\<close>. The \<^verbatim>\<open>finally\<close> block runs after a return and after a
  raise of \<open>m\<close>; when the block itself raises, that exception replaces the outcome of
  \<open>m\<close>; otherwise the outcome of \<open>m\<close> stands.
\<close>

fun after_res :: "'a res \<Rightarrow> unit res \<times> 's \<Rightarrow> 'a res \<times> 's" where
  "after_res r (Ret u, s) = (r, s)"
| "after_res r (Raise e, s) = (Raise e, s)"
| "after_res r (Unfinished, s) = (Unfinished, s)"

fun finally_res :: "'a res \<times> 's \<Rightarrow> (unit, 's) prog \<Rightarrow> 'a res \<times> 's" where
  "finally_res (Unfinished, s) fin = (Unfinished, s)"
| "finally_res (Ret a, s) fin = after_res (Ret a) (fin s)"
| "finally_res (Raise e, s) fin = after_res (Raise e) (fin s)"

definition try_finally :: "('a, 's) prog \<Rightarrow> (unit, 's) prog \<Rightarrow> ('a, 's) prog" where
  "try_finally m fin s = finally_res (m s) fin"

section \<open>Primitive effects\<close>

definition emit :: "event \<Rightarrow> (unit, 'a controller_scheme) prog" where
  "emit ev s = (Ret (), s\<lparr>trace := trace s @ [ev]\<rparr>)"

definition log_info :: "string \<Rightarrow> (unit, 'a controller_scheme) prog" where
  "log_info msg = emit (Log_info msg)"

definition log_error :: "string \<Rightarrow> (unit, 'a controller_scheme) prog" where
  "log_error msg = emit (Log_error msg)"

definition print_line :: "string \<Rightarrow> (unit, 'a controller_scheme) prog" where
  "print_line msg = emit (Print_line msg)"

text \<open>An external call that returns a value: it is recorded with its outcome.\<close>

fun extval :: "call \<Rightarrow> exn + 'v \<Rightarrow> ('v, 'a controller_scheme) prog" where
  "extval c (Inl e) s = (Raise e, s\<lparr>trace := trace s @ [Ext c (Some e)]\<rparr>)"
| "extval c (Inr v) s = (Ret v, s\<lparr>trace := trace s @ [Ext c None]\<rparr>)"

text \<open>An external call made for its effect.\<close>

definition extcall :: "world \<Rightarrow> call \<Rightarrow> (unit, 'a controller_scheme) prog" where
  "extcall w c s =
     extval c (case raises w (trace s) c of None \<Rightarrow> Inr () | Some e \<Rightarrow> Inl e) s"

text \<open>
  \<^verbatim>\<open>self.robot_conn.datachannel.pub_sub.publish_request_new(...)\<close>: while
  \<^verbatim>\<open>self.robot_conn\<close> is \<^verbatim>\<open>None\<close> the attribute access raises AttributeError and
  nothing is sent.
\<close>

definition publish_request_new :: "world \<Rightarrow> call \<Rightarrow> (unit, 'a controller_scheme) prog" where
  "publish_request_new w c s = (if robot_conn s then extcall w c s else raise Error s)"

section \<open>The actuator side, shared by both scripts\<close>

definition set_motion_mode :: "world \<Rightarrow> string \<Rightarrow> (unit, 'a controller_scheme) prog" where
  "set_motion_mode w mode =
     andthen (publish_request_new w (Motion_switcher mode))
             (extcall w (Sleep 2))"

definition setup_robot :: "world \<Rightarrow> (unit, 'a controller_scheme) prog" where
  "setup_robot w =
     try_except
       (andthen (extcall w Conn_new)
       (andthen (\<lambda>s. ret () (s\<lparr>robot_conn := True\<rparr>))
       (andthen (extcall w Connect)
       (andthen (set_motion_mode w ''normal'')
                (log_info ''Robot connection established'')))))
       is_Exception
       (\<lambda>e. andthen (log_error ''Robot setup failed'') (raise e))"

definition move_forward :: "world \<Rightarrow> robot_config \<Rightarrow> (unit, 'a controller_scheme) prog" where
  "move_forward w rc =
     try_except
       (andthen (publish_request_new w (Sport_move (move_speed rc) 0 0))
       (andthen (log_info ''Moving forward'')
       (andthen (extcall w (Sleep (move_duration rc)))
                (publish_request_new w (Sport_move 0 0 0)))))
       is_Exception
       (\<lambda>e. log_error ''Movement execution failed'')"

section \<open>brainflow\_robot\_control.py\<close>

text \<open>
  \<^verbatim>\<open>setup_bci\<close> (lines 53-74). The construction of \<^verbatim>\<open>BrainFlowInputParams\<close> and the
  two assignments to its fields (lines 57-59) touch nothing outside and are left out.
\<close>

definition setup_bci :: "world \<Rightarrow> (unit, brainflow_controller) prog" where
  "setup_bci w =
     try_except
       (andthen (extcall w Board_new)
       (andthen (\<lambda>s. ret () (s\<lparr>board := True\<rparr>))
       (andthen (extcall w Prepare_session)
       (andthen (extcall w Start_stream)
       (andthen (extcall w Model_new)
       (andthen (\<lambda>s. ret () (s\<lparr>concentration_model := True\<rparr>))
       (andthen (extcall w Model_prepare)
                (log_info ''BCI setup completed successfully''))))))))
       is_Exception
       (\<lambda>e. andthen (log_error ''BCI setup failed'') (raise e))"

text \<open>
  Lines 135-155: the score computation. It ends in
  \<^verbatim>\<open>self.concentration_model.predict(...)\<close>, an AttributeError while the model is
  \<^verbatim>\<open>None\<close>.
\<close>

definition score_computation :: "world \<Rightarrow> board_data \<Rightarrow> (real, brainflow_controller) prog" where
  "score_computation w data s =
     (if concentration_model s then extval Predict (predict w (trace s) data) s
      else raise Error s)"

definition process_brain_data :: "world \<Rightarrow> board_data \<Rightarrow> (real, brainflow_controller) prog" where
  "process_brain_data w data =
     try_except
       (score_computation w data)
       is_Exception
       (\<lambda>e. andthen (log_error ''Error processing brain data'') (ret 0))"

text \<open>\<^verbatim>\<open>self.board.get_current_board_data(n)\<close>: AttributeError while the board is \<^verbatim>\<open>None\<close>.\<close>

definition poll :: "world \<Rightarrow> int \<Rightarrow> (board_data, brainflow_controller) prog" where
  "poll w n s =
     (if board s then extval (Get_current_board_data n) (get_current_board_data w (trace s)) s
      else raise Error s)"

text \<open>One iteration of the body of \<^verbatim>\<open>while self.running\<close> (lines 173-183).\<close>

definition cycle :: "world \<Rightarrow> bci_config \<Rightarrow> robot_config \<Rightarrow> (unit, brainflow_controller) prog" where
  "cycle w bc rc =
     bind (poll w (window_size bc)) (\<lambda>data.
       andthen
         (if 0 < data_size data then
            bind (process_brain_data w data) (\<lambda>concentration.
              if command_threshold bc \<le> concentration then
                andthen (log_info ''High concentration detected'') (move_forward w rc)
              else ret ())
          else ret ())
         (extcall w (Sleep 0.1)))"

text \<open>
  The loop of lines 172-183. Nothing in its body clears \<^verbatim>\<open>self.running\<close>, so the loop
  is given fuel: the number of iterations it may make before the model stops looking.
\<close>

fun monitor_loop :: "nat \<Rightarrow> world \<Rightarrow> bci_config \<Rightarrow> robot_config \<Rightarrow> (unit, brainflow_controller) prog" where
  "monitor_loop 0 w bc rc s = (if running s then (Unfinished, s) else ret () s)"
| "monitor_loop (Suc n) w bc rc s =
     (if running s then andthen (cycle w bc rc) (monitor_loop n w bc rc) s else ret () s)"

definition cleanup :: "world \<Rightarrow> (unit, brainflow_controller) prog" where
  "cleanup w =
     andthen (emit Invoke_cleanup)
     (andthen (\<lambda>s. ret () (s\<lparr>running := False\<rparr>))
     (andthen (\<lambda>s. if board s then andthen (extcall w Stop_stream) (extcall w Release_session) s
                    else ret () s)
     (andthen (\<lambda>s. if concentration_model s then extcall w Model_release s else ret () s)
     (andthen (\<lambda>s. if robot_conn s then extcall w Disconnect s else ret () s)
              (log_info ''Cleanup completed'')))))"

text \<open>The \<^verbatim>\<open>try\<close> block of \<^verbatim>\<open>run\<close> (lines 166-183), then \<^verbatim>\<open>run\<close> itself.\<close>

definition run_try :: "nat \<Rightarrow> world \<Rightarrow> bci_config \<Rightarrow> robot_config \<Rightarrow> (unit, brainflow_controller) prog" where
  "run_try fuel w bc rc =
     andthen (setup_bci w)
     (andthen (setup_robot w)
     (andthen (\<lambda>s. ret () (s\<lparr>running := True\<rparr>))
     (andthen (log_info ''Starting brain activity monitoring...'')
              (monitor_loop fuel w bc rc))))"

definition run :: "nat \<Rightarrow> world \<Rightarrow> bci_config \<Rightarrow> robot_config \<Rightarrow> (unit, brainflow_controller) prog" where
  "run fuel w bc rc =
     try_finally
       (try_except (run_try fuel w bc rc) is_Exception (\<lambda>e. log_error ''Runtime error''))
       (cleanup w)"

text \<open>The controller as \<^verbatim>\<open>__init__\<close> leaves it.\<close>

definition init :: brainflow_controller where
  "init = \<lparr>robot_conn = False, running = False, trace = [], board = False,
           concentration_model = False\<rparr>"

text \<open>
  The configuration \<^verbatim>\<open>main\<close> builds (lines 208-219); \<^verbatim>\<open>BoardIds.SYNTHETIC_BOARD\<close>
  is BrainFlow's constant \<open>-1\<close>.
\<close>

definition main_bci_config :: bci_config where
  "main_bci_config = \<lparr>board_id = -1, serial_port = ''COM3'', ip_address = [],
     command_threshold = 0.6, window_size = 256, sampling_rate = 250\<rparr>"

definition main_robot_config :: robot_config where
  "main_robot_config = \<lparr>ip = ''192.168.8.181'', move_speed = 0.5, move_duration = 2\<rparr>"

text \<open>
  \<^verbatim>\<open>main\<close> (lines 206-228), for any configuration; the script's own \<^verbatim>\<open>main\<close> is
  \<open>controller_main fuel w main_bci_config main_robot_config\<close>.
\<close>

definition controller_main :: "nat \<Rightarrow> world \<Rightarrow> bci_config \<Rightarrow> robot_config \<Rightarrow> unit res \<times> brainflow_controller" where
  "controller_main fuel w bc rc =
     try_finally
       (try_except (run fuel w bc rc) is_KeyboardInterrupt
          (\<lambda>e. print_line ''Program interrupted by user''))
       (cleanup w)
       init"

definition main :: "nat \<Rightarrow> world \<Rightarrow> unit res \<times> brainflow_controller" where
  "main fuel w = controller_main fuel w main_bci_config main_robot_config"

section \<open>emotiv\_control.py\<close>

text \<open>
  The names this script shares with the BrainFlow script (\<^verbatim>\<open>setup_bci\<close>, \<^verbatim>\<open>run\<close>,
  \<^verbatim>\<open>cleanup\<close>, \<^verbatim>\<open>main\<close>) carry the prefix \<open>emotiv_\<close> here. Its
  \<^verbatim>\<open>setup_robot\<close>, \<^verbatim>\<open>_set_motion_mode\<close> and \<^verbatim>\<open>move_forward\<close> are the same
  statements as in the BrainFlow script and are the definitions above.
\<close>

text \<open>A method call on \<^verbatim>\<open>self.cortex\<close>: AttributeError while it is \<^verbatim>\<open>None\<close>.\<close>

definition cortex_call :: "world \<Rightarrow> call \<Rightarrow> (unit, emotiv_controller) prog" where
  "cortex_call w c s = (if cortex s then extcall w c s else raise Error s)"

definition cortex_query :: "call \<Rightarrow> (event list \<Rightarrow> exn + 'v) \<Rightarrow> ('v, emotiv_controller) prog" where
  "cortex_query c answer s = (if cortex s then extval c (answer (trace s)) s else raise Error s)"

definition emotiv_setup_training :: "world \<Rightarrow> emotiv_config \<Rightarrow> (unit, emotiv_controller) prog" where
  "emotiv_setup_training w ec =
     try_except
       (andthen (cortex_call w (Setup_profile (profile_name ec)))
       (andthen (log_info ''Starting mental command training for push...'')
       (andthen (cortex_call w (Train_mc ''push''))
       (andthen (cortex_call w Save_profile)
                (log_info ''Training completed and profile saved'')))))
       is_Exception
       (\<lambda>e. andthen (log_error ''Training setup failed'') (raise e))"

text \<open>\<^verbatim>\<open>headsets[0]['id']\<close>: a KeyError when the first headset has no \<^verbatim>\<open>id\<close>.\<close>

definition first_headset_id :: "pydict list \<Rightarrow> (pyval, emotiv_controller) prog" where
  "first_headset_id headsets =
     (case map_of (hd headsets) ''id'' of None \<Rightarrow> raise Error | Some v \<Rightarrow> ret v)"

definition emotiv_setup_bci :: "world \<Rightarrow> emotiv_config \<Rightarrow> (unit, emotiv_controller) prog" where
  "emotiv_setup_bci w ec =
     try_except
       (andthen (cortex_call w Cortex_open)
       (andthen (cortex_call w Request_access)
       (andthen (cortex_call w Authenticate)
       (bind (cortex_query Query_headsets (query_headsets w)) (\<lambda>headsets.
          if length headsets < 1 then raise Error
          else
            bind (first_headset_id headsets) (\<lambda>headset_id.
            andthen (cortex_call w Connect_headset)
            (andthen (cortex_call w Create_session)
            (bind (cortex_query Query_profile (query_profile w)) (\<lambda>profiles.
               andthen
                 (if profile_name ec \<notin> set profiles then emotiv_setup_training w ec
                  else cortex_call w (Load_profile (profile_name ec)))
                 (log_info ''BCI setup completed successfully''))))))))))
       is_Exception
       (\<lambda>e. andthen (log_error ''BCI setup failed'') (raise e))"

text \<open>
  \<^verbatim>\<open>d.get(k, default)\<close>, and \<^verbatim>\<open>power >= threshold\<close> for a float threshold: numbers
  and booleans compare, anything else is a TypeError.
\<close>

definition dict_get :: "pydict \<Rightarrow> string \<Rightarrow> pyval \<Rightarrow> pyval" where
  "dict_get d k dflt = (case map_of d k of None \<Rightarrow> dflt | Some v \<Rightarrow> v)"

fun py_ge :: "pyval \<Rightarrow> real \<Rightarrow> exn + bool" where
  "py_ge (PNum x) t = Inr (t \<le> x)"
| "py_ge (PBool b) t = Inr (t \<le> (if b then 1 else 0))"
| "py_ge PNone t = Inl Error"
| "py_ge (PStr v) t = Inl Error"
| "py_ge POther t = Inl Error"

fun of_sum :: "exn + 'v \<Rightarrow> ('v, 's) prog" where
  "of_sum (Inl e) = raise e"
| "of_sum (Inr v) = ret v"

definition process_mental_commands ::
    "world \<Rightarrow> emotiv_config \<Rightarrow> robot_config \<Rightarrow> pydict option \<Rightarrow> (unit, emotiv_controller) prog" where
  "process_mental_commands w ec rc mental_command_data =
     (case mental_command_data of
        None \<Rightarrow> ret ()
      | Some d \<Rightarrow>
          if d = [] then ret ()
          else
            (let command = dict_get d ''command'' PNone;
                 power = dict_get d ''power'' (PNum 0)
             in if command = PStr ''push'' then
                  bind (of_sum (py_ge power (emotiv_command_threshold ec))) (\<lambda>at_least.
                    if at_least then
                      andthen (log_info ''Push command detected'') (move_forward w rc)
                    else ret ())
                else ret ()))"

fun command_loop :: "nat \<Rightarrow> world \<Rightarrow> emotiv_config \<Rightarrow> robot_config \<Rightarrow> (unit, emotiv_controller) prog" where
  "command_loop 0 w ec rc s = (if running s then (Unfinished, s) else ret () s)"
| "command_loop (Suc n) w ec rc s =
     (if running s then
        andthen
          (bind (cortex_query Receive_data (receive_data w)) (process_mental_commands w ec rc))
          (command_loop n w ec rc) s
      else ret () s)"

definition emotiv_cleanup :: "world \<Rightarrow> (unit, emotiv_controller) prog" where
  "emotiv_cleanup w =
     andthen (emit Invoke_cleanup)
     (andthen (\<lambda>s. ret () (s\<lparr>running := False\<rparr>))
     (andthen (\<lambda>s. if cortex s then extcall w Cortex_close s else ret () s)
     (andthen (\<lambda>s. if robot_conn s then extcall w Disconnect s else ret () s)
              (log_info ''Cleanup completed''))))"

text \<open>The \<^verbatim>\<open>try\<close> block of \<^verbatim>\<open>run\<close> (lines 163-174), then \<^verbatim>\<open>run\<close> itself.\<close>

definition emotiv_run_try :: "nat \<Rightarrow> world \<Rightarrow> emotiv_config \<Rightarrow> robot_config \<Rightarrow> (unit, emotiv_controller) prog" where
  "emotiv_run_try fuel w ec rc =
     andthen (emotiv_setup_bci w ec)
     (andthen (setup_robot w)
     (andthen (\<lambda>s. ret () (s\<lparr>running := True\<rparr>))
     (andthen (log_info ''Starting mental command monitoring...'')
     (andthen (cortex_call w Subscribe)
              (command_loop fuel w ec rc)))))"

definition emotiv_run :: "nat \<Rightarrow> world \<Rightarrow> emotiv_config \<Rightarrow> robot_config \<Rightarrow> (unit, emotiv_controller) prog" where
  "emotiv_run fuel w ec rc =
     try_finally
       (try_except (emotiv_run_try fuel w ec rc) is_Exception (\<lambda>e. log_error ''Runtime error''))
       (emotiv_cleanup w)"

text \<open>\<^verbatim>\<open>__init__\<close> of the Emotiv controller creates the Cortex client at once.\<close>

definition emotiv_init :: emotiv_controller where
  "emotiv_init = \<lparr>robot_conn = False, running = False, trace = [], cortex = True\<rparr>"

definition emotiv_main :: "nat \<Rightarrow> world \<Rightarrow> emotiv_config \<Rightarrow> robot_config \<Rightarrow> unit res \<times> emotiv_controller" where
  "emotiv_main fuel w ec rc =
     try_finally
       (try_except (emotiv_run fuel w ec rc) is_KeyboardInterrupt
          (\<lambda>e. print_line ''Program interrupted by user''))
       (emotiv_cleanup w)
       emotiv_init"

section \<open>Observers of the trace\<close>

text \<open>The commands sent to the actuator: the mode switch and the velocity commands.\<close>

fun is_mode_set :: "event \<Rightarrow> bool" where
  "is_mode_set (Ext (Motion_switcher mode) outcome) = True"
| "is_mode_set ev = False"

fun is_movement :: "event \<Rightarrow> bool" where
  "is_movement (Ext (Sport_move x y z) outcome) = True"
| "is_movement ev = False"

definition is_dispatch :: "event \<Rightarrow> bool" where
  "is_dispatch ev = (is_mode_set ev \<or> is_movement ev)"

fun is_connect :: "event \<Rightarrow> bool" where
  "is_connect (Ext Connect outcome) = True"
| "is_connect ev = False"

fun is_cleanup_entry :: "event \<Rightarrow> bool" where
  "is_cleanup_entry Invoke_cleanup = True"
| "is_cleanup_entry ev = False"

fun is_poll :: "event \<Rightarrow> bool" where
  "is_poll (Ext (Get_current_board_data n) outcome) = True"
| "is_poll ev = False"

fun is_predict :: "event \<Rightarrow> bool" where
  "is_predict (Ext Predict outcome) = True"
| "is_predict ev = False"

text \<open>The external calls of a trace, in order, without their outcomes.\<close>

fun calls_of :: "event list \<Rightarrow> call list" where
  "calls_of [] = []"
| "calls_of (Ext c outcome # tr) = c # calls_of tr"
| "calls_of (ev # tr) = calls_of tr"

text \<open>What a piece of code appended to the trace: the events after those of the start state.\<close>

definition new_events :: "'a controller_scheme \<Rightarrow> 'b \<times> 'a controller_scheme \<Rightarrow> event list" where
  "new_events s result = drop (length (trace s)) (trace (snd result))"

text \<open>
  The teardown calls \<^verbatim>\<open>cleanup\<close> has to make in a given state, in the order of its
  statements (lines 194-202 of the BrainFlow script, 184-187 of the Emotiv script).
\<close>

definition teardown_plan :: "brainflow_controller \<Rightarrow> call list" where
  "teardown_plan s =
     (if board s then [Stop_stream, Release_session] else []) @
     (if concentration_model s then [Model_release] else []) @
     (if robot_conn s then [Disconnect] else [])"

definition emotiv_teardown_plan :: "emotiv_controller \<Rightarrow> call list" where
  "emotiv_teardown_plan s =
     (if cortex s then [Cortex_close] else []) @
     (if robot_conn s then [Disconnect] else [])"

text \<open>Making a list of calls one after the other until the first one that raises.\<close>

fun first_failure :: "world \<Rightarrow> call list \<Rightarrow> event list \<Rightarrow> unit res \<times> event list" where
  "first_failure w [] tr = (Ret (), tr)"
| "first_failure w (c # cs) tr =
     (case raises w tr c of
        None \<Rightarrow> first_failure w cs (tr @ [Ext c None])
      | Some e \<Rightarrow> (Raise e, tr @ [Ext c (Some e)]))"

fun finish_cleanup :: "unit res \<times> event list \<Rightarrow> (unit, 'a controller_scheme) prog" where
  "finish_cleanup (Ret u, tr) s =
     (Ret (), s\<lparr>running := False, trace := tr @ [Log_info ''Cleanup completed'']\<rparr>)"
| "finish_cleanup (Raise e, tr) s = (Raise e, s\<lparr>running := False, trace := tr\<rparr>)"
| "finish_cleanup (Unfinished, tr) s = (Unfinished, s)"

text \<open>
  A piece of code \<open>appends P\<close> when all it does to the trace is to append events that
  satisfy \<open>P\<close>.
\<close>

definition appends :: "(event \<Rightarrow> bool) \<Rightarrow> ('a, 'b controller_scheme) prog \<Rightarrow> bool" where
  "appends P m = (\<forall>s. \<exists>d. trace (snd (m s)) = trace s @ d \<and> list_all P d)"

section \<open>Worlds and states for the scenarios\<close>

text \<open>A world in which no call raises, the board has no data and no event arrives.\<close>

definition calm :: world where
  "calm = \<lparr>raises = (\<lambda>tr c. None),
            get_current_board_data = (\<lambda>tr. Inr []),
            predict = (\<lambda>tr data. Inr 0),
            query_headsets = (\<lambda>tr. Inr [[(''id'', PStr ''headset'')]]),
            query_profile = (\<lambda>tr. Inr [''Go2Control'']),
            receive_data = (\<lambda>tr. Inr None)\<rparr>"

text \<open>A BrainFlow controller in the middle of a run: every handle is set.\<close>

definition live :: brainflow_controller where
  "live = \<lparr>robot_conn = True, running = True, trace = [], board = True,
           concentration_model = True\<rparr>"

definition emotiv_live :: emotiv_controller where
  "emotiv_live = \<lparr>robot_conn = True, running = True, trace = [], cortex = True\<rparr>"

text \<open>Worlds with one failing call.\<close>

definition failing :: "call \<Rightarrow> exn \<Rightarrow> world" where
  "failing c e = calm\<lparr>raises := (\<lambda>tr c'. if c' = c then Some e else None)\<rparr>"

definition poll_fails :: world where
  "poll_fails = calm\<lparr>get_current_board_data := (\<lambda>tr. Inl Error)\<rparr>"

text \<open>
  Scenario A of the specification: the first four polls return a window, the score
  computation yields 0.2, 0.3, 0.7, 0.1 in turn, and the run is interrupted from the
  keyboard at the fifth poll (the loop has no exit of its own).
\<close>

definition scenario_A :: world where
  "scenario_A = calm\<lparr>
     get_current_board_data :=
       (\<lambda>tr. if length (filter is_poll tr) < 4 then Inr [[1]] else Inl Keyboard_interrupt),
     predict :=
       (\<lambda>tr data. if length (filter is_predict tr) < 4
                   then Inr ([0.2, 0.3, 0.7, 0.1] ! length (filter is_predict tr))
                   else Inl Error)\<rparr>"

text \<open>A world whose board always has a window and whose score is always \<open>v\<close>.\<close>

definition steady :: "real \<Rightarrow> world" where
  "steady v = calm\<lparr>get_current_board_data := (\<lambda>tr. Inr [[1]]), predict := (\<lambda>tr data. Inr v)\<rparr>"

definition main_emotiv_config :: emotiv_config where
  "main_emotiv_config = \<lparr>client_id = ''your_emotiv_client_id'',
     client_secret = ''your_emotiv_client_secret'', emotiv_command_threshold = 0.5,
     profile_name = ''Go2Control''\<rparr>"

text \<open>
  A world whose board always has a window scoring 0.7, and whose actuator rejects the
  forward command of \<^verbatim>\<open>main\<close>'s configuration (the publish raises).
\<close>

definition move_rejected :: world where
  "move_rejected =
     (steady 0.7)\<lparr>raises := (\<lambda>tr c. if c = Sport_move 0.5 0 0 then Some Error else None)\<rparr>"

text \<open>A world whose board always has a window and whose score computation always raises.\<close>

definition score_fails :: world where
  "score_fails =
     calm\<lparr>get_current_board_data := (\<lambda>tr. Inr [[1]]), predict := (\<lambda>tr data. Inl Error)\<rparr>"

text \<open>Mental-command events: a strong push, and a push without a power field.\<close>

definition strong_push :: pydict where
  "strong_push = [(''command'', PStr ''push''), (''power'', PNum 0.8)]"

definition push_without_power :: pydict where
  "push_without_power = [(''command'', PStr ''push'')]"

text \<open>
  The order of actuator commands on a trace: either no connection was opened and nothing
  was sent, or a connection was opened, the mode was set exactly once, the mode switch is
  the first command, every later command is a movement command, and movement commands
  exist only after an accepted mode switch.
\<close>

definition mode_set_first :: "event list \<Rightarrow> bool" where
  "mode_set_first tr =
     ((Ext Connect None \<notin> set tr \<and> filter is_dispatch tr = []) \<or>
      (Ext Connect None \<in> set tr \<and> length (filter is_mode_set tr) = 1 \<and>
       (\<exists>outcome. filter is_dispatch tr =
            Ext (Motion_switcher ''normal'') outcome # filter is_movement tr \<and>
          (outcome = None \<or> filter is_movement tr = []))))"

text \<open>
  A world like \<open>move_rejected\<close>, but the actuator accepts the forward command and it is
  the wait of \<^verbatim>\<open>move_duration\<close> (two seconds in \<^verbatim>\<open>main\<close>) that raises.
\<close>

definition wait_fails :: world where
  "wait_fails =
     (steady 0.7)\<lparr>raises := (\<lambda>tr c. if c = Sleep 2 then Some Error else None)\<rparr>"

text \<open>
  Scenario A again, but a second \<^verbatim>\<open>stop_stream\<close> on the board raises, as a call on a
  stream that was already stopped.
\<close>

definition second_stop_fails :: world where
  "second_stop_fails =
     scenario_A\<lparr>raises :=
       (\<lambda>tr c. if c = Stop_stream \<and> Ext Stop_stream None \<in> set tr then Some Error else None)\<rparr>"

text \<open>A world in which the actuator's \<^verbatim>\<open>connect\<close> and the board's \<^verbatim>\<open>stop_stream\<close> raise.\<close>

definition connect_and_stop_fail :: world where
  "connect_and_stop_fail =
     calm\<lparr>raises :=
       (\<lambda>tr c. if c = Connect \<or> c = Stop_stream then Some Error else None)\<rparr>"

section \<open>Basic facts\<close>

lemmas prog_defs = bind_def andthen_def ret_def raise_def try_except_def try_finally_def
  emit_def log_info_def log_error_def print_line_def extcall_def publish_request_new_def

lemmas world_defs = calm_def live_def emotiv_live_def failing_def poll_fails_def scenario_A_def
  steady_def move_rejected_def wait_fails_def second_stop_fails_def
  connect_and_stop_fail_def score_fails_def strong_push_def push_without_power_def
  main_bci_config_def main_robot_config_def main_emotiv_config_def init_def
  emotiv_init_def

lemmas brainflow_defs = main_def controller_main_def run_def run_try_def setup_bci_def setup_robot_def
  set_motion_mode_def cleanup_def cycle_def poll_def process_brain_data_def
  score_computation_def move_forward_def data_size_def

lemmas emotiv_defs = emotiv_main_def emotiv_run_def emotiv_run_try_def emotiv_setup_bci_def
  emotiv_setup_training_def first_headset_id_def cortex_call_def cortex_query_def
  setup_robot_def set_motion_mode_def emotiv_cleanup_def process_mental_commands_def
  dict_get_def move_forward_def

section \<open>Cleanup\<close>

lemma cleanup_first_failure:
  "cleanup w s =
     finish_cleanup (first_failure w (teardown_plan s) (trace s @ [Invoke_cleanup])) s"
  by (cases "board s"; cases "concentration_model s"; cases "robot_conn s")
     (simp_all add: cleanup_def prog_defs teardown_plan_def split: option.splits)

lemma emotiv_cleanup_first_failure:
  "emotiv_cleanup w s =
     finish_cleanup (first_failure w (emotiv_teardown_plan s) (trace s @ [Invoke_cleanup])) s"
  by (cases "cortex s"; cases "robot_conn s")
     (simp_all add: emotiv_cleanup_def prog_defs emotiv_teardown_plan_def split: option.splits)

lemma first_failure_cases:
  "(fst (first_failure w cs tr) = Ret () \<and>
      snd (first_failure w cs tr) = tr @ map (\<lambda>c. Ext c None) cs)
   \<or> (\<exists>k e. k < length cs \<and> fst (first_failure w cs tr) = Raise e \<and>
         snd (first_failure w cs tr) =
           tr @ map (\<lambda>c. Ext c None) (take k cs) @ [Ext (cs ! k) (Some e)])"
proof (induction cs arbitrary: tr)
  case Nil
  then show ?case by simp
next
  case (Cons c cs)
  show ?case
  proof (cases "raises w tr c")
    case None
    from Cons.IH[of "tr @ [Ext c None]"] show ?thesis
    proof (elim disjE exE conjE)
      assume "fst (first_failure w cs (tr @ [Ext c None])) = Ret ()"
        "snd (first_failure w cs (tr @ [Ext c None])) =
           (tr @ [Ext c None]) @ map (\<lambda>c. Ext c None) cs"
      then show ?thesis using None by simp
    next
      fix k e
      assume "k < length cs" "fst (first_failure w cs (tr @ [Ext c None])) = Raise e"
        "snd (first_failure w cs (tr @ [Ext c None])) =
           (tr @ [Ext c None]) @ map (\<lambda>c. Ext c None) (take k cs) @ [Ext (cs ! k) (Some e)]"
      then have "Suc k < length (c # cs) \<and> fst (first_failure w (c # cs) tr) = Raise e \<and>
         snd (first_failure w (c # cs) tr) =
           tr @ map (\<lambda>c. Ext c None) (take (Suc k) (c # cs)) @ [Ext ((c # cs) ! Suc k) (Some e)]"
        using None by simp
      then show ?thesis by blast
    qed
  next
    case (Some e)
    then have "0 < length (c # cs) \<and> fst (first_failure w (c # cs) tr) = Raise e \<and>
         snd (first_failure w (c # cs) tr) =
           tr @ map (\<lambda>c. Ext c None) (take 0 (c # cs)) @ [Ext ((c # cs) ! 0) (Some e)]"
      by simp
    then show ?thesis by blast
  qed
qed

lemma finish_cleanup_cases:
  assumes "(fst ff = Ret () \<and> snd ff = tr @ map (\<lambda>c. Ext c None) cs)
     \<or> (\<exists>k e. k < length cs \<and> fst ff = Raise e \<and>
           snd ff = tr @ map (\<lambda>c. Ext c None) (take k cs) @ [Ext (cs ! k) (Some e)])"
  shows "(fst (finish_cleanup ff s) = Ret () \<and>
      trace (snd (finish_cleanup ff s)) =
        tr @ map (\<lambda>c. Ext c None) cs @ [Log_info ''Cleanup completed''])
   \<or> (\<exists>k e. k < length cs \<and> fst (finish_cleanup ff s) = Raise e \<and>
        trace (snd (finish_cleanup ff s)) =
          tr @ map (\<lambda>c. Ext c None) (take k cs) @ [Ext (cs ! k) (Some e)])"
  using assms by (cases ff) auto

text \<open>
  C2 (as the code has it). \<^verbatim>\<open>cleanup\<close> has no handler of its own. It makes the teardown
  calls of its plan in order; when all of them return it logs and returns; the first call
  that raises ends it: the later calls are not made and the exception leaves
  \<^verbatim>\<open>cleanup\<close>. This holds for the BrainFlow and for the Emotiv controller.
\<close>

theorem cleanup_stops_at_first_failure:
  "((fst (cleanup w s) = Ret () \<and>
       trace (snd (cleanup w s)) =
         (trace s @ [Invoke_cleanup]) @ map (\<lambda>c. Ext c None) (teardown_plan s) @
         [Log_info ''Cleanup completed''])
    \<or> (\<exists>k e. k < length (teardown_plan s) \<and> fst (cleanup w s) = Raise e \<and>
         trace (snd (cleanup w s)) =
           (trace s @ [Invoke_cleanup]) @ map (\<lambda>c. Ext c None) (take k (teardown_plan s)) @
           [Ext (teardown_plan s ! k) (Some e)]))
   \<and>
   ((fst (emotiv_cleanup w t) = Ret () \<and>
       trace (snd (emotiv_cleanup w t)) =
         (trace t @ [Invoke_cleanup]) @ map (\<lambda>c. Ext c None) (emotiv_teardown_plan t) @
         [Log_info ''Cleanup completed''])
    \<or> (\<exists>k e. k < length (emotiv_teardown_plan t) \<and> fst (emotiv_cleanup w t) = Raise e \<and>
         trace (snd (emotiv_cleanup w t)) =
           (trace t @ [Invoke_cleanup]) @
           map (\<lambda>c. Ext c None) (take k (emotiv_teardown_plan t)) @
           [Ext (emotiv_teardown_plan t ! k) (Some e)]))"
  unfolding cleanup_first_failure emotiv_cleanup_first_failure
  by (intro conjI finish_cleanup_cases first_failure_cases)

text \<open>
  C2, counterexample: with every handle set and \<^verbatim>\<open>stop_stream\<close> raising, \<^verbatim>\<open>cleanup\<close>
  raises that error to its caller, and neither \<^verbatim>\<open>release_session\<close> nor the release of
  the model nor \<^verbatim>\<open>disconnect\<close> is attempted.
\<close>

theorem cleanup_raises_counterexample:
  "cleanup (failing Stop_stream Error) live =
     (Raise Error, live\<lparr>running := False,
                        trace := [Invoke_cleanup, Ext Stop_stream (Some Error)]\<rparr>)"
  by (simp add: cleanup_def prog_defs world_defs)

lemma calls_of_append: "calls_of (xs @ ys) = calls_of xs @ calls_of ys"
  by (induction xs rule: calls_of.induct) simp_all

lemma calls_of_returned: "calls_of (map (\<lambda>c. Ext c None) cs) = cs"
  by (induction cs) simp_all

lemma first_failure_returns:
  "fst (first_failure w cs tr) = Ret () \<Longrightarrow>
   snd (first_failure w cs tr) = tr @ map (\<lambda>c. Ext c None) cs"
  using first_failure_cases[of w cs tr] by auto

lemma finish_cleanup_returns:
  "fst (finish_cleanup ff s) = Ret () \<Longrightarrow>
   fst ff = Ret () \<and> trace (snd (finish_cleanup ff s)) = snd ff @ [Log_info ''Cleanup completed'']"
  by (cases "(ff, s)" rule: finish_cleanup.cases) simp_all

text \<open>
  C4 (as the code has it). When \<^verbatim>\<open>cleanup\<close> returns, the external calls it made are, in
  this order: \<^verbatim>\<open>stop_stream\<close> and \<^verbatim>\<open>release_session\<close> (when the board is set), the
  release of the model (when it is set), \<^verbatim>\<open>disconnect\<close> (when the connection is set).
  The session is closed before the feature extractor is released. The Emotiv cleanup
  closes the Cortex session, then disconnects.
\<close>

theorem cleanup_order:
  "(fst (cleanup w s) = Ret () \<longrightarrow>
      calls_of (new_events s (cleanup w s)) =
        (if board s then [Stop_stream, Release_session] else []) @
        (if concentration_model s then [Model_release] else []) @
        (if robot_conn s then [Disconnect] else []))
   \<and>
   (fst (emotiv_cleanup w t) = Ret () \<longrightarrow>
      calls_of (new_events t (emotiv_cleanup w t)) =
        (if cortex t then [Cortex_close] else []) @
        (if robot_conn t then [Disconnect] else []))"
proof (intro conjI impI)
  assume r: "fst (cleanup w s) = Ret ()"
  let ?ff = "first_failure w (teardown_plan s) (trace s @ [Invoke_cleanup])"
  from r have "fst ?ff = Ret ()"
    and t: "trace (snd (cleanup w s)) = snd ?ff @ [Log_info ''Cleanup completed'']"
    using finish_cleanup_returns[of ?ff s] by (simp_all add: cleanup_first_failure)
  then have "trace (snd (cleanup w s)) =
      trace s @ Invoke_cleanup # map (\<lambda>c. Ext c None) (teardown_plan s) @
      [Log_info ''Cleanup completed'']"
    using first_failure_returns[of w "teardown_plan s"] by simp
  then have "calls_of (new_events s (cleanup w s)) = teardown_plan s"
    by (simp add: new_events_def calls_of_append calls_of_returned)
  then show "calls_of (new_events s (cleanup w s)) =
        (if board s then [Stop_stream, Release_session] else []) @
        (if concentration_model s then [Model_release] else []) @
        (if robot_conn s then [Disconnect] else [])"
    by (simp only: teardown_plan_def)
next
  assume r: "fst (emotiv_cleanup w t) = Ret ()"
  let ?ff = "first_failure w (emotiv_teardown_plan t) (trace t @ [Invoke_cleanup])"
  from r have "fst ?ff = Ret ()"
    and t: "trace (snd (emotiv_cleanup w t)) = snd ?ff @ [Log_info ''Cleanup completed'']"
    using finish_cleanup_returns[of ?ff t] by (simp_all add: emotiv_cleanup_first_failure)
  then have "trace (snd (emotiv_cleanup w t)) =
      trace t @ Invoke_cleanup # map (\<lambda>c. Ext c None) (emotiv_teardown_plan t) @
      [Log_info ''Cleanup completed'']"
    using first_failure_returns[of w "emotiv_teardown_plan t"] by simp
  then have "calls_of (new_events t (emotiv_cleanup w t)) = emotiv_teardown_plan t"
    by (simp add: new_events_def calls_of_append calls_of_returned)
  then show "calls_of (new_events t (emotiv_cleanup w t)) =
        (if cortex t then [Cortex_close] else []) @
        (if robot_conn t then [Disconnect] else [])"
    by (simp only: emotiv_teardown_plan_def)
qed

theorem cleanup_order_witness:
  "fst (cleanup calm live) = Ret () \<and>
   calls_of (new_events live (cleanup calm live)) =
     [Stop_stream, Release_session, Model_release, Disconnect] \<and>
   fst (emotiv_cleanup calm emotiv_live) = Ret () \<and>
   calls_of (new_events emotiv_live (emotiv_cleanup calm emotiv_live)) =
     [Cortex_close, Disconnect]"
proof -
  have a: "fst (cleanup calm live) = Ret ()"
    by (simp add: cleanup_def prog_defs world_defs)
  have b: "fst (emotiv_cleanup calm emotiv_live) = Ret ()"
    by (simp add: emotiv_cleanup_def prog_defs world_defs)
  from a b cleanup_order[of calm live emotiv_live] show ?thesis
    by (simp add: world_defs)
qed

text \<open>
  C4, counterexample: in a run of \<^verbatim>\<open>cleanup\<close> with every handle set and no failure, the
  session is closed (\<^verbatim>\<open>release_session\<close>) before the feature extractor is released
  (\<^verbatim>\<open>concentration_model.release\<close>), not after it.
\<close>

theorem cleanup_order_counterexample:
  "calls_of (new_events live (cleanup calm live)) =
     [Stop_stream, Release_session, Model_release, Disconnect] \<and>
   calls_of (new_events live (cleanup calm live)) \<noteq>
     [Stop_stream, Model_release, Release_session, Disconnect]"
  by (simp add: cleanup_def prog_defs world_defs new_events_def)

section \<open>What each piece of code can append to the trace\<close>

lemma appendsI:
  assumes "\<And>s. \<exists>d. trace (snd (m s)) = trace s @ d \<and> list_all P d"
  shows "appends P m"
  using assms by (simp add: appends_def)

lemma appendsD:
  assumes "appends P m"
  obtains d where "trace (snd (m s)) = trace s @ d" "list_all P d"
  using assms unfolding appends_def by blast

lemma appends_weaken:
  assumes "appends P m" and "\<And>ev. P ev \<Longrightarrow> Q ev"
  shows "appends Q m"
proof (rule appendsI)
  fix s
  from assms(1) obtain d where "trace (snd (m s)) = trace s @ d" "list_all P d"
    by (rule appendsD)
  with assms(2) show "\<exists>d. trace (snd (m s)) = trace s @ d \<and> list_all Q d"
    by (auto simp: list_all_iff)
qed

lemma appends_ret: "appends P (ret a)"
  by (simp add: appends_def ret_def)

lemma appends_raise: "appends P (raise e)"
  by (simp add: appends_def raise_def)

lemma appends_unfinished: "appends P (\<lambda>s. (Unfinished, s))"
  by (simp add: appends_def)

lemma appends_update:
  assumes "\<And>s. trace (f s) = trace s"
  shows "appends P (\<lambda>s. ret a (f s))"
  using assms by (simp add: appends_def ret_def)

lemma appends_emit: "P ev \<Longrightarrow> appends P (emit ev)"
  by (simp add: appends_def emit_def)

lemma appends_extval_at:
  assumes "\<And>outcome. P (Ext c outcome)"
  shows "appends P (\<lambda>s. extval c (answer s) s)"
proof (rule appendsI)
  fix s
  show "\<exists>d. trace (snd (extval c (answer s) s)) = trace s @ d \<and> list_all P d"
    using assms by (cases "answer s") simp_all
qed

lemma appends_extcall:
  assumes "\<And>outcome. P (Ext c outcome)"
  shows "appends P (extcall w c)"
  using appends_extval_at[of P c, OF assms] by (simp add: extcall_def[abs_def])

lemma appends_bind:
  assumes m: "appends P m" and f: "\<And>a. appends P (f a)"
  shows "appends P (bind m f)"
proof (rule appendsI)
  fix s
  from m obtain d where d: "trace (snd (m s)) = trace s @ d" "list_all P d"
    by (rule appendsD)
  show "\<exists>d. trace (snd (bind m f s)) = trace s @ d \<and> list_all P d"
  proof (cases "fst (m s)")
    case (Ret a)
    from f[of a] obtain d' where d': "trace (snd (f a (snd (m s)))) = trace (snd (m s)) @ d'"
      "list_all P d'"
      by (rule appendsD)
    from Ret have "bind m f s = f a (snd (m s))"
      by (cases "m s") (simp add: bind_def)
    with d d' have "trace (snd (bind m f s)) = trace s @ (d @ d') \<and> list_all P (d @ d')"
      by simp
    then show ?thesis by blast
  next
    case (Raise e)
    then have "bind m f s = (Raise e, snd (m s))"
      by (cases "m s") (simp add: bind_def)
    with d show ?thesis by auto
  next
    case Unfinished
    then have "bind m f s = (Unfinished, snd (m s))"
      by (cases "m s") (simp add: bind_def)
    with d show ?thesis by auto
  qed
qed

lemma appends_andthen:
  assumes "appends P m" and "appends P n"
  shows "appends P (andthen m n)"
  unfolding andthen_def using assms by (intro appends_bind)

lemma appends_try_except:
  assumes m: "appends P m" and h: "\<And>e. appends P (h e)"
  shows "appends P (try_except m catches h)"
proof (rule appendsI)
  fix s
  from m obtain d where d: "trace (snd (m s)) = trace s @ d" "list_all P d"
    by (rule appendsD)
  show "\<exists>d. trace (snd (try_except m catches h s)) = trace s @ d \<and> list_all P d"
  proof (cases "fst (m s)")
    case (Ret a)
    then have "try_except m catches h s = (Ret a, snd (m s))"
      by (cases "m s") (simp add: try_except_def)
    with d show ?thesis by auto
  next
    case (Raise e)
    show ?thesis
    proof (cases "catches e")
      case True
      from h[of e] obtain d' where
        d': "trace (snd (h e (snd (m s)))) = trace (snd (m s)) @ d'" "list_all P d'"
        by (rule appendsD)
      from Raise True have "try_except m catches h s = h e (snd (m s))"
        by (cases "m s") (simp add: try_except_def)
      with d d' have "trace (snd (try_except m catches h s)) = trace s @ (d @ d') \<and>
          list_all P (d @ d')"
        by simp
      then show ?thesis by blast
    next
      case False
      with Raise have "try_except m catches h s = (Raise e, snd (m s))"
        by (cases "m s") (simp add: try_except_def)
      with d show ?thesis by auto
    qed
  next
    case Unfinished
    then have "try_except m catches h s = (Unfinished, snd (m s))"
      by (cases "m s") (simp add: try_except_def)
    with d show ?thesis by auto
  qed
qed

lemma snd_after_res: "snd (after_res r x) = snd x"
  by (cases "(r, x)" rule: after_res.cases) simp_all

lemma appends_try_finally:
  assumes m: "appends P m" and fin: "appends P fin"
  shows "appends P (try_finally m fin)"
proof (rule appendsI)
  fix s
  from m obtain d where d: "trace (snd (m s)) = trace s @ d" "list_all P d"
    by (rule appendsD)
  from fin obtain d' where
    d': "trace (snd (fin (snd (m s)))) = trace (snd (m s)) @ d'" "list_all P d'"
    by (rule appendsD)
  have "snd (try_finally m fin s) = snd (m s) \<or> snd (try_finally m fin s) = snd (fin (snd (m s)))"
    by (cases "(m s, fin)" rule: finally_res.cases) (simp_all add: try_finally_def snd_after_res)
  then show "\<exists>d. trace (snd (try_finally m fin s)) = trace s @ d \<and> list_all P d"
  proof
    assume "snd (try_finally m fin s) = snd (m s)"
    with d show ?thesis by auto
  next
    assume "snd (try_finally m fin s) = snd (fin (snd (m s)))"
    with d d' have "trace (snd (try_finally m fin s)) = trace s @ (d @ d') \<and> list_all P (d @ d')"
      by simp
    then show ?thesis by blast
  qed
qed

lemma appends_if:
  assumes "appends P m" and "appends P n"
  shows "appends P (\<lambda>s. if b s then m s else n s)"
  using assms by (simp add: appends_def)

lemma appends_cond:
  assumes "appends P m" and "appends P n"
  shows "appends P (if c then m else n)"
  using assms by simp

lemma appends_publish:
  assumes "\<And>outcome. P (Ext c outcome)"
  shows "appends P (publish_request_new w c)"
  unfolding publish_request_new_def[abs_def]
  by (intro appends_if appends_extcall appends_raise assms)

lemmas appends_intros = appends_ret appends_raise appends_unfinished appends_update
  appends_emit appends_extval_at appends_extcall appends_bind appends_andthen
  appends_try_except appends_try_finally appends_if appends_cond appends_publish


text \<open>Events that are neither an actuator command, nor an entry into cleanup, nor a connect.\<close>

lemma appends_setup_bci:
  "appends (\<lambda>ev. \<not> is_dispatch ev \<and> \<not> is_cleanup_entry ev \<and> \<not> is_connect ev) (setup_bci w)"
  unfolding setup_bci_def log_info_def log_error_def
  by (intro appends_intros) (simp_all add: is_dispatch_def)

lemma appends_setup_robot:
  "appends (\<lambda>ev. \<not> is_movement ev \<and> \<not> is_cleanup_entry ev) (setup_robot w)"
  unfolding setup_robot_def set_motion_mode_def log_info_def log_error_def
  by (intro appends_intros) (simp_all add: is_dispatch_def)

lemma appends_move_forward:
  "appends (\<lambda>ev. \<not> is_mode_set ev \<and> \<not> is_cleanup_entry ev \<and> \<not> is_connect ev) (move_forward w rc)"
  unfolding move_forward_def log_info_def log_error_def
  by (intro appends_intros) (simp_all add: is_dispatch_def)

lemma appends_process_brain_data:
  "appends (\<lambda>ev. \<not> is_dispatch ev \<and> \<not> is_cleanup_entry ev \<and> \<not> is_connect ev)
     (process_brain_data w data)"
  unfolding process_brain_data_def score_computation_def[abs_def] log_info_def log_error_def
  by (intro appends_intros) (simp_all add: is_dispatch_def)

lemma appends_cycle:
  "appends (\<lambda>ev. \<not> is_mode_set ev \<and> \<not> is_cleanup_entry ev \<and> \<not> is_connect ev) (cycle w bc rc)"
  unfolding cycle_def poll_def[abs_def] log_info_def
  by (intro appends_intros appends_move_forward
        appends_weaken[OF appends_process_brain_data])
     (simp_all add: is_dispatch_def)

lemma monitor_loop_0: "monitor_loop 0 w bc rc = (\<lambda>s. if running s then (Unfinished, s) else ret () s)"
  by (rule ext) simp

lemma monitor_loop_Suc:
  "monitor_loop (Suc n) w bc rc =
     (\<lambda>s. if running s then andthen (cycle w bc rc) (monitor_loop n w bc rc) s else ret () s)"
  by (rule ext) simp

lemma appends_monitor_loop:
  "appends (\<lambda>ev. \<not> is_mode_set ev \<and> \<not> is_cleanup_entry ev \<and> \<not> is_connect ev)
     (monitor_loop n w bc rc)"
proof (induction n)
  case 0
  show ?case unfolding monitor_loop_0 by (intro appends_intros)
next
  case (Suc n)
  show ?case unfolding monitor_loop_Suc by (intro appends_intros appends_cycle Suc)
qed

lemma appends_cleanup:
  "appends (\<lambda>ev. \<not> is_dispatch ev \<and> \<not> is_connect ev) (cleanup w)"
  unfolding cleanup_def log_info_def
  by (intro appends_intros) (simp_all add: is_dispatch_def)

lemma appends_emotiv_cleanup:
  "appends (\<lambda>ev. \<not> is_dispatch ev \<and> \<not> is_connect ev) (emotiv_cleanup w)"
  unfolding emotiv_cleanup_def log_info_def
  by (intro appends_intros) (simp_all add: is_dispatch_def)

section \<open>How often cleanup runs\<close>















lemma cleanup_events:
  "(fst (cleanup w s) = Ret () \<and>
      new_events s (cleanup w s) =
        Invoke_cleanup # map (\<lambda>c. Ext c None) (teardown_plan s) @
        [Log_info ''Cleanup completed''])
   \<or> (\<exists>k e. k < length (teardown_plan s) \<and> fst (cleanup w s) = Raise e \<and>
         new_events s (cleanup w s) =
           Invoke_cleanup # map (\<lambda>c. Ext c None) (take k (teardown_plan s)) @
           [Ext (teardown_plan s ! k) (Some e)])"
proof -
  from finish_cleanup_cases[OF first_failure_cases, of w "teardown_plan s"
      "trace s @ [Invoke_cleanup]" s]
  have "(fst (cleanup w s) = Ret () \<and>
      trace (snd (cleanup w s)) =
        (trace s @ [Invoke_cleanup]) @ map (\<lambda>c. Ext c None) (teardown_plan s) @
        [Log_info ''Cleanup completed''])
   \<or> (\<exists>k e. k < length (teardown_plan s) \<and> fst (cleanup w s) = Raise e \<and>
        trace (snd (cleanup w s)) =
          (trace s @ [Invoke_cleanup]) @ map (\<lambda>c. Ext c None) (take k (teardown_plan s)) @
          [Ext (teardown_plan s ! k) (Some e)])"
    by (simp only: cleanup_first_failure)
  then show ?thesis
  proof (elim disjE exE conjE)
    assume "fst (cleanup w s) = Ret ()"
      "trace (snd (cleanup w s)) =
        (trace s @ [Invoke_cleanup]) @ map (\<lambda>c. Ext c None) (teardown_plan s) @
        [Log_info ''Cleanup completed'']"
    then show ?thesis by (simp add: new_events_def)
  next
    fix k e
    assume "k < length (teardown_plan s)" "fst (cleanup w s) = Raise e"
      "trace (snd (cleanup w s)) =
          (trace s @ [Invoke_cleanup]) @ map (\<lambda>c. Ext c None) (take k (teardown_plan s)) @
          [Ext (teardown_plan s ! k) (Some e)]"
    then have "k < length (teardown_plan s) \<and> fst (cleanup w s) = Raise e \<and>
         new_events s (cleanup w s) =
           Invoke_cleanup # map (\<lambda>c. Ext c None) (take k (teardown_plan s)) @
           [Ext (teardown_plan s ! k) (Some e)]"
      by (simp add: new_events_def)
    then show ?thesis by blast
  qed
qed







section \<open>Scenario A\<close>

text \<open>
  C8. With the threshold 0.6 of \<^verbatim>\<open>main\<close> and the scores 0.2, 0.3, 0.7, 0.1, the whole
  run (ended by the interrupt at the fifth poll) sends one forward command and one stop
  command, both after the third poll and its score and before the fourth poll. The run
  is given five or more iterations of fuel, and it ends.
\<close>

theorem scenario_A_one_move_stop_pair:
  "fst (main (Suc (Suc (Suc (Suc (Suc n))))) scenario_A) = Ret () \<and>
   filter is_movement (trace (snd (main (Suc (Suc (Suc (Suc (Suc n))))) scenario_A))) =
     [Ext (Sport_move 0.5 0 0) None, Ext (Sport_move 0 0 0) None] \<and>
   take 26 (trace (snd (main (Suc (Suc (Suc (Suc (Suc n))))) scenario_A))) =
     [Ext Board_new None, Ext Prepare_session None, Ext Start_stream None,
      Ext Model_new None, Ext Model_prepare None,
      Log_info ''BCI setup completed successfully'', Ext Conn_new None,
      Ext Connect None, Ext (Motion_switcher ''normal'') None,
      Ext (Sleep 2) None, Log_info ''Robot connection established'',
      Log_info ''Starting brain activity monitoring...'',
      Ext (Get_current_board_data 256) None, Ext Predict None, Ext (Sleep 0.1) None,
      Ext (Get_current_board_data 256) None, Ext Predict None, Ext (Sleep 0.1) None,
      Ext (Get_current_board_data 256) None, Ext Predict None,
      Log_info ''High concentration detected'',
      Ext (Sport_move 0.5 0 0) None, Log_info ''Moving forward'',
      Ext (Sleep 2) None, Ext (Sport_move 0 0 0) None,
      Ext (Sleep 0.1) None]"
  by (simp add: brainflow_defs prog_defs world_defs)

section \<open>Errors inside the loop\<close>

lemma process_brain_data_on_error:
  assumes "fst (score_computation w data s) = Raise Error"
  shows "process_brain_data w data s =
     (Ret 0, (snd (score_computation w data s))
        \<lparr>trace := trace (snd (score_computation w data s)) @
                  [Log_error ''Error processing brain data'']\<rparr>)"
  using assms
  by (cases "score_computation w data s") (simp add: process_brain_data_def prog_defs)

lemma score_computation_frame:
  "running (snd (score_computation w data s)) = running s"
  "robot_conn (snd (score_computation w data s)) = robot_conn s"
  "board (snd (score_computation w data s)) = board s"
  by (cases "predict w (trace s) data"; simp add: score_computation_def raise_def)+

lemma poll_error_ends_loop:
  assumes "running s" "board s" "get_current_board_data w (trace s) = Inl Error"
  shows "monitor_loop (Suc n) w bc rc s =
     (Raise Error,
      s\<lparr>trace := trace s @ [Ext (Get_current_board_data (window_size bc)) (Some Error)]\<rparr>)"
  using assms by (simp add: cycle_def poll_def prog_defs)

lemma run_logs_error_of_try_block:
  assumes "fst (run_try fuel w bc rc s) = Raise Error"
  shows "run fuel w bc rc s =
     cleanup w ((snd (run_try fuel w bc rc s))
       \<lparr>trace := trace (snd (run_try fuel w bc rc s)) @ [Log_error ''Runtime error'']\<rparr>)"
proof -
  let ?s' = "(snd (run_try fuel w bc rc s))
       \<lparr>trace := trace (snd (run_try fuel w bc rc s)) @ [Log_error ''Runtime error'']\<rparr>"
  from assms have "try_except (run_try fuel w bc rc) is_Exception
      (\<lambda>e. log_error ''Runtime error'') s = (Ret (), ?s')"
    by (cases "run_try fuel w bc rc s") (simp add: try_except_def log_error_def emit_def)
  then have "run fuel w bc rc s = after_res (Ret ()) (cleanup w ?s')"
    by (simp add: run_def try_finally_def)
  also have "\<dots> = cleanup w ?s'"
    by (cases "cleanup w ?s'"; cases "fst (cleanup w ?s')") simp_all
  finally show ?thesis .
qed

text \<open>
  C5 (as the code has it). An error of the score computation is caught inside
  \<^verbatim>\<open>process_brain_data\<close>: it is logged, the score is 0.0 and, the threshold being
  positive and the wait returning, the loop goes on with its next iteration. An error of
  the poll call is not caught inside the loop: it ends the loop. Like every error that
  leaves the \<^verbatim>\<open>try\<close> block of \<^verbatim>\<open>run\<close>, it is then logged as a runtime error and
  \<^verbatim>\<open>run\<close> goes to cleanup.
\<close>

theorem score_error_continues_poll_error_ends_loop:
  "(fst (score_computation w data s) = Raise Error \<longrightarrow>
      process_brain_data w data s =
        (Ret 0, (snd (score_computation w data s))
           \<lparr>trace := trace (snd (score_computation w data s)) @
                     [Log_error ''Error processing brain data'']\<rparr>))
   \<and>
   (running s \<and> board s \<and> get_current_board_data w (trace s) = Inr data \<and>
    0 < data_size data \<and> 0 < command_threshold bc \<and>
    fst (score_computation w data
           (s\<lparr>trace := trace s @ [Ext (Get_current_board_data (window_size bc)) None]\<rparr>)) =
      Raise Error \<and>
    raises w (trace (snd (process_brain_data w data
           (s\<lparr>trace := trace s @ [Ext (Get_current_board_data (window_size bc)) None]\<rparr>))))
      (Sleep 0.1) = None \<longrightarrow>
      monitor_loop (Suc n) w bc rc s =
        monitor_loop n w bc rc
          ((snd (process_brain_data w data
             (s\<lparr>trace := trace s @ [Ext (Get_current_board_data (window_size bc)) None]\<rparr>)))
           \<lparr>trace := trace (snd (process_brain_data w data
                (s\<lparr>trace := trace s @ [Ext (Get_current_board_data (window_size bc)) None]\<rparr>))) @
              [Ext (Sleep 0.1) None]\<rparr>))
   \<and>
   (running s \<and> board s \<and> get_current_board_data w (trace s) = Inl Error \<longrightarrow>
      monitor_loop (Suc n) w bc rc s =
        (Raise Error,
         s\<lparr>trace := trace s @ [Ext (Get_current_board_data (window_size bc)) (Some Error)]\<rparr>))
   \<and>
   (fst (run_try fuel w bc rc s) = Raise Error \<longrightarrow>
      run fuel w bc rc s =
        cleanup w ((snd (run_try fuel w bc rc s))
          \<lparr>trace := trace (snd (run_try fuel w bc rc s)) @ [Log_error ''Runtime error'']\<rparr>))"
proof (intro conjI impI)
  assume "fst (score_computation w data s) = Raise Error"
  then show "process_brain_data w data s =
        (Ret 0, (snd (score_computation w data s))
           \<lparr>trace := trace (snd (score_computation w data s)) @
                     [Log_error ''Error processing brain data'']\<rparr>)"
    by (rule process_brain_data_on_error)
next
  let ?s1 = "s\<lparr>trace := trace s @ [Ext (Get_current_board_data (window_size bc)) None]\<rparr>"
  assume a: "running s \<and> board s \<and> get_current_board_data w (trace s) = Inr data \<and>
    0 < data_size data \<and> 0 < command_threshold bc \<and>
    fst (score_computation w data ?s1) = Raise Error \<and>
    raises w (trace (snd (process_brain_data w data ?s1))) (Sleep 0.1) = None"
  obtain s2 where p: "process_brain_data w data ?s1 = (Ret 0, s2)"
    using a process_brain_data_on_error[of w data ?s1] by simp
  have r: "running s2"
    using a p process_brain_data_on_error[of w data ?s1]
      score_computation_frame(1)[of w data ?s1]
    by auto
  from a have "cycle w bc rc s = extcall w (Sleep 0.1) s2"
    by (simp add: cycle_def poll_def bind_def andthen_def ret_def p)
  moreover from a have "raises w (trace s2) (Sleep 0.1) = None"
    by (simp add: p)
  ultimately have "monitor_loop (Suc n) w bc rc s =
      monitor_loop n w bc rc (s2\<lparr>trace := trace s2 @ [Ext (Sleep 0.1) None]\<rparr>)"
    using a r by (simp add: andthen_def bind_def extcall_def)
  then show "monitor_loop (Suc n) w bc rc s =
        monitor_loop n w bc rc
          ((snd (process_brain_data w data ?s1))
           \<lparr>trace := trace (snd (process_brain_data w data ?s1)) @ [Ext (Sleep 0.1) None]\<rparr>)"
    by (simp add: p)
next
  assume "running s \<and> board s \<and> get_current_board_data w (trace s) = Inl Error"
  then show "monitor_loop (Suc n) w bc rc s =
        (Raise Error,
         s\<lparr>trace := trace s @ [Ext (Get_current_board_data (window_size bc)) (Some Error)]\<rparr>)"
    using poll_error_ends_loop by blast
next
  assume "fst (run_try fuel w bc rc s) = Raise Error"
  then show "run fuel w bc rc s =
        cleanup w ((snd (run_try fuel w bc rc s))
          \<lparr>trace := trace (snd (run_try fuel w bc rc s)) @ [Log_error ''Runtime error'']\<rparr>)"
    by (rule run_logs_error_of_try_block)
qed

theorem score_error_continues_poll_error_ends_loop_witness:
  "process_brain_data score_fails [[1]] live =
     (Ret 0, live\<lparr>trace := [Ext Predict (Some Error),
                              Log_error ''Error processing brain data'']\<rparr>)
   \<and> monitor_loop (Suc 0) score_fails main_bci_config main_robot_config live =
       monitor_loop 0 score_fails main_bci_config main_robot_config
         (live\<lparr>trace := [Ext (Get_current_board_data 256) None, Ext Predict (Some Error),
                          Log_error ''Error processing brain data'', Ext (Sleep 0.1) None]\<rparr>)
   \<and> monitor_loop (Suc 0) poll_fails main_bci_config main_robot_config live =
       (Raise Error, live\<lparr>trace := [Ext (Get_current_board_data 256) (Some Error)]\<rparr>)
   \<and> fst (run_try 1 poll_fails main_bci_config main_robot_config init) = Raise Error
   \<and> run 1 poll_fails main_bci_config main_robot_config init =
       cleanup poll_fails
         ((snd (run_try 1 poll_fails main_bci_config main_robot_config init))
            \<lparr>trace := trace (snd (run_try 1 poll_fails main_bci_config main_robot_config init)) @
                       [Log_error ''Runtime error'']\<rparr>)"
proof -
  have a: "fst (score_computation score_fails [[1]] live) = Raise Error"
    by (simp add: score_computation_def world_defs)
  have b: "fst (run_try 1 poll_fails main_bci_config main_robot_config init) = Raise Error"
    by (simp add: brainflow_defs prog_defs world_defs)
  have pbd: "process_brain_data score_fails [[1]]
       (live\<lparr>trace := trace live @ [Ext (Get_current_board_data 256) None]\<rparr>) =
     (Ret 0, live\<lparr>trace := [Ext (Get_current_board_data 256) None, Ext Predict (Some Error),
                          Log_error ''Error processing brain data'']\<rparr>)"
    by (simp add: process_brain_data_def score_computation_def prog_defs world_defs)
  have c: "running live \<and> board live \<and>
      get_current_board_data score_fails (trace live) = Inr [[1]] \<and>
      0 < data_size [[1]] \<and> 0 < command_threshold main_bci_config \<and>
      fst (score_computation score_fails [[1]]
        (live\<lparr>trace := trace live @
           [Ext (Get_current_board_data (window_size main_bci_config)) None]\<rparr>)) = Raise Error \<and>
      raises score_fails (trace (snd (process_brain_data score_fails [[1]]
        (live\<lparr>trace := trace live @
           [Ext (Get_current_board_data (window_size main_bci_config)) None]\<rparr>))))
        (Sleep 0.1) = None"
    by (simp add: score_computation_def process_brain_data_def prog_defs world_defs data_size_def)
  have d: "running live \<and> board live \<and> get_current_board_data poll_fails (trace live) = Inl Error"
    by (simp add: world_defs)
  note t1 = score_error_continues_poll_error_ends_loop
      [where w = score_fails and data = "[[1]]" and s = live and bc = main_bci_config
         and rc = main_robot_config and n = 0 and fuel = 1]
  note t2 = score_error_continues_poll_error_ends_loop
      [where w = poll_fails and data = "[[1]]" and s = live and bc = main_bci_config
         and rc = main_robot_config and n = 0 and fuel = 1]
  note t3 = score_error_continues_poll_error_ends_loop
      [where w = poll_fails and data = "[[1]]" and s = init and bc = main_bci_config
         and rc = main_robot_config and n = 0 and fuel = 1]
  have 1: "process_brain_data score_fails [[1]] live =
     (Ret 0, live\<lparr>trace := [Ext Predict (Some Error),
                              Log_error ''Error processing brain data'']\<rparr>)"
    using t1 a by (simp add: score_computation_def world_defs)
  have 2: "monitor_loop (Suc 0) score_fails main_bci_config main_robot_config live =
       monitor_loop 0 score_fails main_bci_config main_robot_config
         (live\<lparr>trace := [Ext (Get_current_board_data 256) None, Ext Predict (Some Error),
                          Log_error ''Error processing brain data'', Ext (Sleep 0.1) None]\<rparr>)"
  proof -
    from t1 c have "monitor_loop (Suc 0) score_fails main_bci_config main_robot_config live =
        monitor_loop 0 score_fails main_bci_config main_robot_config
          ((snd (process_brain_data score_fails [[1]]
             (live\<lparr>trace := trace live @
                [Ext (Get_current_board_data (window_size main_bci_config)) None]\<rparr>)))
           \<lparr>trace := trace (snd (process_brain_data score_fails [[1]]
                (live\<lparr>trace := trace live @
                   [Ext (Get_current_board_data (window_size main_bci_config)) None]\<rparr>))) @
              [Ext (Sleep 0.1) None]\<rparr>)"
      by blast
    also have "window_size main_bci_config = 256" by (simp add: world_defs)
    finally show ?thesis by (simp add: pbd)
  qed
  have 3: "monitor_loop (Suc 0) poll_fails main_bci_config main_robot_config live =
       (Raise Error, live\<lparr>trace := [Ext (Get_current_board_data 256) (Some Error)]\<rparr>)"
    using t2 d by (simp add: world_defs)
  from t3 b have 4: "run 1 poll_fails main_bci_config main_robot_config init =
       cleanup poll_fails
         ((snd (run_try 1 poll_fails main_bci_config main_robot_config init))
            \<lparr>trace := trace (snd (run_try 1 poll_fails main_bci_config main_robot_config init)) @
                       [Log_error ''Runtime error'']\<rparr>)"
    by blast
  from 1 2 3 b 4 show ?thesis by blast
qed

text \<open>
  C5, counterexample: the first poll raises an error. The loop is given fuel for five
  iterations, but the run is over after that one poll: the error is logged as a runtime
  error, cleanup runs, and no second poll is made.
\<close>

theorem poll_error_counterexample:
  "main 5 poll_fails =
     (Ret (),
      \<lparr>robot_conn = True, running = False,
       trace =
         [Ext Board_new None, Ext Prepare_session None, Ext Start_stream None,
          Ext Model_new None, Ext Model_prepare None,
          Log_info ''BCI setup completed successfully'', Ext Conn_new None,
          Ext Connect None, Ext (Motion_switcher ''normal'') None,
          Ext (Sleep 2) None, Log_info ''Robot connection established'',
          Log_info ''Starting brain activity monitoring...'',
          Ext (Get_current_board_data 256) (Some Error),
          Log_error ''Runtime error'', Invoke_cleanup, Ext Stop_stream None,
          Ext Release_session None, Ext Model_release None,
          Ext Disconnect None, Log_info ''Cleanup completed'', Invoke_cleanup,
          Ext Stop_stream None, Ext Release_session None,
          Ext Model_release None, Ext Disconnect None,
          Log_info ''Cleanup completed''],
       board = True, concentration_model = True\<rparr>)
   \<and> length (filter is_poll (trace (snd (main 5 poll_fails)))) = 1"
  by (simp add: brainflow_defs prog_defs world_defs eval_nat_numeral)

section \<open>A failed score computation moves nothing\<close>

lemma cycle_on_score_error:
  assumes "board s" "get_current_board_data w (trace s) = Inr data" "0 < data_size data"
    "0 < command_threshold bc"
    "fst (score_computation w data
       (s\<lparr>trace := trace s @ [Ext (Get_current_board_data (window_size bc)) None]\<rparr>)) =
     Raise Error"
  shows "cycle w bc rc s =
     extcall w (Sleep 0.1)
       (snd (process_brain_data w data
          (s\<lparr>trace := trace s @ [Ext (Get_current_board_data (window_size bc)) None]\<rparr>)))"
proof -
  let ?s1 = "s\<lparr>trace := trace s @ [Ext (Get_current_board_data (window_size bc)) None]\<rparr>"
  obtain s2 where p: "process_brain_data w data ?s1 = (Ret 0, s2)"
    using assms process_brain_data_on_error[of w data ?s1] by simp
  from assms have "cycle w bc rc s = extcall w (Sleep 0.1) s2"
    by (simp add: cycle_def poll_def bind_def andthen_def ret_def p)
  then show ?thesis by (simp add: p)
qed

text \<open>
  C9. When the score computation raises an error, \<^verbatim>\<open>process_brain_data\<close> returns 0.0.
  So, the threshold being positive, a cycle whose score computation raised an error
  sends no movement command.
\<close>

theorem score_error_gives_zero_and_no_movement:
  "(fst (score_computation w data s) = Raise Error \<longrightarrow>
      fst (process_brain_data w data s) = Ret 0)
   \<and>
   (board s \<and> get_current_board_data w (trace s) = Inr data \<and> 0 < data_size data \<and>
    0 < command_threshold bc \<and>
    fst (score_computation w data
           (s\<lparr>trace := trace s @ [Ext (Get_current_board_data (window_size bc)) None]\<rparr>)) =
      Raise Error \<longrightarrow>
      filter is_movement (new_events s (cycle w bc rc s)) = [])"
proof (intro conjI impI)
  assume "fst (score_computation w data s) = Raise Error"
  then show "fst (process_brain_data w data s) = Ret 0"
    by (simp add: process_brain_data_on_error)
next
  let ?s1 = "s\<lparr>trace := trace s @ [Ext (Get_current_board_data (window_size bc)) None]\<rparr>"
  let ?s2 = "snd (process_brain_data w data ?s1)"
  assume a: "board s \<and> get_current_board_data w (trace s) = Inr data \<and> 0 < data_size data \<and>
    0 < command_threshold bc \<and> fst (score_computation w data ?s1) = Raise Error"
  then have c: "cycle w bc rc s = extcall w (Sleep 0.1) ?s2"
    using cycle_on_score_error[of s w data bc rc] by simp
  obtain d where d: "trace ?s2 = trace ?s1 @ d"
      "list_all (\<lambda>ev. \<not> is_dispatch ev \<and> \<not> is_cleanup_entry ev \<and> \<not> is_connect ev) d"
    using appends_process_brain_data[of w data] by (rule appendsD)
  have "appends (\<lambda>ev. \<not> is_movement ev) (extcall w (Sleep 0.1))"
    by (rule appends_extcall) simp
  then obtain d' where d': "trace (snd (extcall w (Sleep 0.1) ?s2)) = trace ?s2 @ d'"
      "list_all (\<lambda>ev. \<not> is_movement ev) d'"
    by (rule appendsD)
  from d(2) have "filter is_movement d = []"
    by (auto simp: list_all_iff filter_empty_conv is_dispatch_def)
  moreover from d'(2) have "filter is_movement d' = []"
    by (auto simp: list_all_iff filter_empty_conv)
  ultimately show "filter is_movement (new_events s (cycle w bc rc s)) = []"
    using c d(1) d'(1) by (simp add: new_events_def)
qed

theorem score_error_gives_zero_and_no_movement_witness:
  "fst (score_computation score_fails [[1]] live) = Raise Error \<and>
   fst (process_brain_data score_fails [[1]] live) = Ret 0 \<and>
   0 < command_threshold main_bci_config \<and>
   filter is_movement
     (new_events live (cycle score_fails main_bci_config main_robot_config live)) = []"
proof -
  have a: "fst (score_computation score_fails [[1]] live) = Raise Error"
    by (simp add: score_computation_def world_defs)
  have b: "board live \<and> get_current_board_data score_fails (trace live) = Inr [[1]] \<and>
      0 < data_size [[1]] \<and> 0 < command_threshold main_bci_config \<and>
      fst (score_computation score_fails [[1]]
        (live\<lparr>trace := trace live @
           [Ext (Get_current_board_data (window_size main_bci_config)) None]\<rparr>)) = Raise Error"
    by (simp add: score_computation_def world_defs data_size_def)
  from a b score_error_gives_zero_and_no_movement
      [where w = score_fails and data = "[[1]]" and s = live and bc = main_bci_config
         and rc = main_robot_config]
  show ?thesis by blast
qed

section \<open>Mental-command events\<close>

lemma new_events_same: "new_events s (r, s) = []"
  by (simp add: new_events_def)

lemma process_mental_commands_trigger:
  assumes "mental_command_data = Some d" "d \<noteq> []"
    "dict_get d ''command'' PNone = PStr ''push''"
    "py_ge (dict_get d ''power'' (PNum 0)) (emotiv_command_threshold ec) = Inr True"
  shows "process_mental_commands w ec rc mental_command_data s =
     andthen (log_info ''Push command detected'') (move_forward w rc) s"
  using assms by (simp add: process_mental_commands_def bind_def ret_def)

lemma process_mental_commands_idle:
  assumes "\<not> (\<exists>d. mental_command_data = Some d \<and> d \<noteq> [] \<and>
        dict_get d ''command'' PNone = PStr ''push'' \<and>
        py_ge (dict_get d ''power'' (PNum 0)) (emotiv_command_threshold ec) = Inr True)"
  shows "snd (process_mental_commands w ec rc mental_command_data s) = s"
proof (cases mental_command_data)
  case None
  then show ?thesis by (simp add: process_mental_commands_def ret_def)
next
  case (Some d)
  show ?thesis
  proof (cases "d \<noteq> [] \<and> dict_get d ''command'' PNone = PStr ''push''")
    case False
    with Some show ?thesis by (auto simp: process_mental_commands_def ret_def)
  next
    case True
    with Some assms
    have n: "py_ge (dict_get d ''power'' (PNum 0)) (emotiv_command_threshold ec) \<noteq> Inr True"
      by simp
    show ?thesis
    proof (cases "py_ge (dict_get d ''power'' (PNum 0)) (emotiv_command_threshold ec)")
      case (Inl e)
      with Some True show ?thesis
        by (simp add: process_mental_commands_def bind_def raise_def)
    next
      case (Inr b)
      with n have "\<not> b" by simp
      with Inr Some True show ?thesis
        by (simp add: process_mental_commands_def bind_def ret_def)
    qed
  qed
qed

text \<open>
  C10. \<^verbatim>\<open>process_mental_commands\<close> sends something to the actuator only for an event
  whose command is \<^verbatim>\<open>'push'\<close> and whose power is at least the threshold, and for such
  an event it moves forward. A missing or empty event, an event with another command,
  and, the threshold being positive, an event without a power field leave the
  controller as it is and return.
\<close>

theorem push_above_threshold_only:
  "(filter is_dispatch
      (new_events s (process_mental_commands w ec rc mental_command_data s)) \<noteq> [] \<longrightarrow>
      (\<exists>d. mental_command_data = Some d \<and> d \<noteq> [] \<and>
           dict_get d ''command'' PNone = PStr ''push'' \<and>
           py_ge (dict_get d ''power'' (PNum 0)) (emotiv_command_threshold ec) = Inr True))
   \<and>
   (mental_command_data = Some d \<and> d \<noteq> [] \<and>
    dict_get d ''command'' PNone = PStr ''push'' \<and>
    py_ge (dict_get d ''power'' (PNum 0)) (emotiv_command_threshold ec) = Inr True \<longrightarrow>
      process_mental_commands w ec rc mental_command_data s =
        andthen (log_info ''Push command detected'') (move_forward w rc) s)
   \<and>
   (mental_command_data = None \<or> mental_command_data = Some [] \<longrightarrow>
      process_mental_commands w ec rc mental_command_data s = (Ret (), s))
   \<and>
   (mental_command_data = Some d \<and> dict_get d ''command'' PNone \<noteq> PStr ''push'' \<longrightarrow>
      process_mental_commands w ec rc mental_command_data s = (Ret (), s))
   \<and>
   (mental_command_data = Some d \<and> map_of d ''power'' = None \<and>
    0 < emotiv_command_threshold ec \<longrightarrow>
      process_mental_commands w ec rc mental_command_data s = (Ret (), s))"
proof (intro conjI impI)
  assume a: "filter is_dispatch
      (new_events s (process_mental_commands w ec rc mental_command_data s)) \<noteq> []"
  show "\<exists>d. mental_command_data = Some d \<and> d \<noteq> [] \<and>
           dict_get d ''command'' PNone = PStr ''push'' \<and>
           py_ge (dict_get d ''power'' (PNum 0)) (emotiv_command_threshold ec) = Inr True"
  proof (rule ccontr)
    assume "\<not> ?thesis"
    then have "snd (process_mental_commands w ec rc mental_command_data s) = s"
      by (rule process_mental_commands_idle)
    then have "new_events s (process_mental_commands w ec rc mental_command_data s) = []"
      by (simp add: new_events_def)
    with a show False by simp
  qed
next
  assume "mental_command_data = Some d \<and> d \<noteq> [] \<and>
    dict_get d ''command'' PNone = PStr ''push'' \<and>
    py_ge (dict_get d ''power'' (PNum 0)) (emotiv_command_threshold ec) = Inr True"
  then show "process_mental_commands w ec rc mental_command_data s =
        andthen (log_info ''Push command detected'') (move_forward w rc) s"
    by (simp add: process_mental_commands_trigger)
next
  assume "mental_command_data = None \<or> mental_command_data = Some []"
  then show "process_mental_commands w ec rc mental_command_data s = (Ret (), s)"
    by (auto simp: process_mental_commands_def ret_def)
next
  assume "mental_command_data = Some d \<and> dict_get d ''command'' PNone \<noteq> PStr ''push''"
  then show "process_mental_commands w ec rc mental_command_data s = (Ret (), s)"
    by (auto simp: process_mental_commands_def ret_def)
next
  assume "mental_command_data = Some d \<and> map_of d ''power'' = None \<and>
    0 < emotiv_command_threshold ec"
  then show "process_mental_commands w ec rc mental_command_data s = (Ret (), s)"
    by (auto simp: process_mental_commands_def ret_def bind_def dict_get_def)
qed

theorem push_above_threshold_only_witness:
  "filter is_dispatch
     (new_events emotiv_live
        (process_mental_commands calm main_emotiv_config main_robot_config
           (Some strong_push) emotiv_live)) =
     [Ext (Sport_move 0.5 0 0) None, Ext (Sport_move 0 0 0) None]
   \<and> (\<exists>d. Some strong_push = Some d \<and> d \<noteq> [] \<and>
           dict_get d ''command'' PNone = PStr ''push'' \<and>
           py_ge (dict_get d ''power'' (PNum 0))
             (emotiv_command_threshold main_emotiv_config) = Inr True)
   \<and> process_mental_commands calm main_emotiv_config main_robot_config None emotiv_live =
       (Ret (), emotiv_live)
   \<and> process_mental_commands calm main_emotiv_config main_robot_config
       (Some [(''command'', PStr ''pull''), (''power'', PNum 0.9)]) emotiv_live =
       (Ret (), emotiv_live)
   \<and> process_mental_commands calm main_emotiv_config main_robot_config
       (Some push_without_power) emotiv_live = (Ret (), emotiv_live)"
proof -
  have 1: "filter is_dispatch
     (new_events emotiv_live
        (process_mental_commands calm main_emotiv_config main_robot_config
           (Some strong_push) emotiv_live)) =
     [Ext (Sport_move 0.5 0 0) None, Ext (Sport_move 0 0 0) None]"
    by (simp add: emotiv_defs prog_defs world_defs new_events_def is_dispatch_def)
  note t1 = push_above_threshold_only
      [where s = emotiv_live and w = calm and ec = main_emotiv_config
         and rc = main_robot_config and mental_command_data = "Some strong_push"
         and d = strong_push]
  note t2 = push_above_threshold_only
      [where s = emotiv_live and w = calm and ec = main_emotiv_config
         and rc = main_robot_config and mental_command_data = None and d = "[]"]
  note t3 = push_above_threshold_only
      [where s = emotiv_live and w = calm and ec = main_emotiv_config
         and rc = main_robot_config
         and mental_command_data = "Some [(''command'', PStr ''pull''), (''power'', PNum 0.9)]"
         and d = "[(''command'', PStr ''pull''), (''power'', PNum 0.9)]"]
  note t4 = push_above_threshold_only
      [where s = emotiv_live and w = calm and ec = main_emotiv_config
         and rc = main_robot_config and mental_command_data = "Some push_without_power"
         and d = push_without_power]
  from 1 t1 have 2: "\<exists>d. Some strong_push = Some d \<and> d \<noteq> [] \<and>
           dict_get d ''command'' PNone = PStr ''push'' \<and>
           py_ge (dict_get d ''power'' (PNum 0))
             (emotiv_command_threshold main_emotiv_config) = Inr True"
    by simp
  from t2 have 3: "process_mental_commands calm main_emotiv_config main_robot_config None
      emotiv_live = (Ret (), emotiv_live)"
    by simp
  have "dict_get [(''command'', PStr ''pull''), (''power'', PNum 0.9)] ''command'' PNone \<noteq>
      PStr ''push''"
    by (simp add: dict_get_def)
  with t3 have 4: "process_mental_commands calm main_emotiv_config main_robot_config
       (Some [(''command'', PStr ''pull''), (''power'', PNum 0.9)]) emotiv_live =
       (Ret (), emotiv_live)"
    by blast
  have "map_of push_without_power ''power'' = None \<and>
      0 < emotiv_command_threshold main_emotiv_config"
    by (simp add: world_defs)
  with t4 have 5: "process_mental_commands calm main_emotiv_config main_robot_config
       (Some push_without_power) emotiv_live = (Ret (), emotiv_live)"
    by blast
  from 1 2 3 4 5 show ?thesis by blast
qed

section \<open>What one cycle sends to the actuator\<close>

lemma tail_bind:
  assumes "\<And>a. appends P (f a)"
  shows "\<exists>d. trace (snd (bind m f s)) = trace (snd (m s)) @ d \<and> list_all P d"
proof (cases "fst (m s)")
  case (Ret a)
  from assms[of a] obtain d where "trace (snd (f a (snd (m s)))) = trace (snd (m s)) @ d"
    "list_all P d"
    by (rule appendsD)
  moreover from Ret have "bind m f s = f a (snd (m s))"
    by (cases "m s") (simp add: bind_def)
  ultimately show ?thesis by auto
next
  case (Raise e)
  then have "bind m f s = (Raise e, snd (m s))"
    by (cases "m s") (simp add: bind_def)
  then show ?thesis by simp
next
  case Unfinished
  then have "bind m f s = (Unfinished, snd (m s))"
    by (cases "m s") (simp add: bind_def)
  then show ?thesis by simp
qed

lemma tail_andthen:
  assumes "appends P n"
  shows "\<exists>d. trace (snd (andthen m n s)) = trace (snd (m s)) @ d \<and> list_all P d"
  unfolding andthen_def using assms by (intro tail_bind)

lemma tail_try_except:
  assumes "\<And>e. appends P (h e)"
  shows "\<exists>d. trace (snd (try_except m catches h s)) = trace (snd (m s)) @ d \<and> list_all P d"
proof (cases "fst (m s)")
  case (Ret a)
  then have "try_except m catches h s = (Ret a, snd (m s))"
    by (cases "m s") (simp add: try_except_def)
  then show ?thesis by simp
next
  case (Raise e)
  show ?thesis
  proof (cases "catches e")
    case True
    from assms[of e] obtain d where "trace (snd (h e (snd (m s)))) = trace (snd (m s)) @ d"
      "list_all P d"
      by (rule appendsD)
    moreover from Raise True have "try_except m catches h s = h e (snd (m s))"
      by (cases "m s") (simp add: try_except_def)
    ultimately show ?thesis by auto
  next
    case False
    with Raise have "try_except m catches h s = (Raise e, snd (m s))"
      by (cases "m s") (simp add: try_except_def)
    then show ?thesis by simp
  qed
next
  case Unfinished
  then have "try_except m catches h s = (Unfinished, snd (m s))"
    by (cases "m s") (simp add: try_except_def)
  then show ?thesis by simp
qed

lemma tail_try_finally:
  assumes "appends P fin"
  shows "\<exists>d. trace (snd (try_finally m fin s)) = trace (snd (m s)) @ d \<and> list_all P d"
proof -
  from assms obtain d where
    d: "trace (snd (fin (snd (m s)))) = trace (snd (m s)) @ d" "list_all P d"
    by (rule appendsD)
  have "snd (try_finally m fin s) = snd (m s) \<or> snd (try_finally m fin s) = snd (fin (snd (m s)))"
    by (cases "(m s, fin)" rule: finally_res.cases) (simp_all add: try_finally_def snd_after_res)
  then show ?thesis
  proof
    assume "snd (try_finally m fin s) = snd (m s)"
    then show ?thesis by simp
  next
    assume "snd (try_finally m fin s) = snd (fin (snd (m s)))"
    with d show ?thesis by auto
  qed
qed

lemma filter_none:
  assumes "list_all P d" and "\<And>ev. P ev \<Longrightarrow> \<not> Q ev"
  shows "filter Q d = []"
  using assms by (auto simp: list_all_iff filter_empty_conv)

lemma move_forward_shape:
  assumes "robot_conn s"
  shows "\<exists>d. trace (snd (move_forward w rc s)) = trace s @ d \<and>
     ((\<exists>e. filter is_dispatch d = [Ext (Sport_move (move_speed rc) 0 0) (Some e)])
      \<or> filter is_dispatch d = [Ext (Sport_move (move_speed rc) 0 0) None]
      \<or> (\<exists>outcome. filter is_dispatch d =
            [Ext (Sport_move (move_speed rc) 0 0) None, Ext (Sport_move 0 0 0) outcome]))"
proof (cases "raises w (trace s) (Sport_move (move_speed rc) 0 0)")
  case (Some e)
  with assms show ?thesis
    by (cases e) (simp_all add: move_forward_def prog_defs is_dispatch_def)
next
  case None
  note move = None
  let ?t1 = "trace s @ [Ext (Sport_move (move_speed rc) 0 0) None, Log_info ''Moving forward'']"
  show ?thesis
  proof (cases "raises w ?t1 (Sleep (move_duration rc))")
    case (Some e)
    with assms move show ?thesis
      by (cases e) (simp_all add: move_forward_def prog_defs is_dispatch_def)
  next
    case None
    note wait = None
    show ?thesis
    proof (cases "raises w (?t1 @ [Ext (Sleep (move_duration rc)) None]) (Sport_move 0 0 0)")
      case None
      with assms move wait show ?thesis
        by (simp add: move_forward_def prog_defs is_dispatch_def)
    next
      case (Some e)
      with assms move wait show ?thesis
        by (cases e) (simp_all add: move_forward_def prog_defs is_dispatch_def)
    qed
  qed
qed

lemma move_forward_all_return:
  assumes "robot_conn s" "\<forall>tr c. raises w tr c = None"
  shows "move_forward w rc s =
     (Ret (), s\<lparr>trace := trace s @
        [Ext (Sport_move (move_speed rc) 0 0) None, Log_info ''Moving forward'',
         Ext (Sleep (move_duration rc)) None, Ext (Sport_move 0 0 0) None]\<rparr>)"
  using assms by (simp add: move_forward_def prog_defs)

lemma process_brain_data_frame:
  "robot_conn (snd (process_brain_data w data s)) = robot_conn s"
proof (cases "score_computation w data s")
  case (Pair r s')
  with score_computation_frame(2)[of w data s] have "robot_conn s' = robot_conn s" by simp
  with Pair show ?thesis
    by (cases r; cases "is_Exception (case r of Raise e \<Rightarrow> e | _ \<Rightarrow> Error)")
       (simp_all add: process_brain_data_def prog_defs)
qed

lemma cycle_dispatch:
  assumes "board s" "robot_conn s" "get_current_board_data w (trace s) = Inr data"
    "0 < data_size data"
    "fst (process_brain_data w data
       (s\<lparr>trace := trace s @ [Ext (Get_current_board_data (window_size bc)) None]\<rparr>)) = Ret v"
  shows "\<exists>s3 :: brainflow_controller. robot_conn s3 \<and>
     filter is_dispatch (new_events s (cycle w bc rc s)) =
       (if command_threshold bc \<le> v
        then filter is_dispatch (new_events s3 (move_forward w rc s3)) else [])"
proof -
  let ?P = "\<lambda>ev. \<not> is_dispatch ev \<and> \<not> is_cleanup_entry ev \<and> \<not> is_connect ev"
  let ?s1 = "s\<lparr>trace := trace s @ [Ext (Get_current_board_data (window_size bc)) None]\<rparr>"
  obtain s2 where p: "process_brain_data w data ?s1 = (Ret v, s2)"
    using assms(5) by (cases "process_brain_data w data ?s1") simp
  obtain d where "trace (snd (process_brain_data w data ?s1)) = trace ?s1 @ d" "list_all ?P d"
    using appends_process_brain_data[of w data] by (rule appendsD)
  then have d: "trace s2 = trace s @ Ext (Get_current_board_data (window_size bc)) None # d"
    and dn: "filter is_dispatch d = []"
    by (simp_all add: p filter_none)
  have rc2: "robot_conn s2"
    using process_brain_data_frame[of w data ?s1] assms(2) by (simp add: p)
  have sleep: "appends (\<lambda>ev. \<not> is_dispatch ev) (extcall w (Sleep 0.1))"
    by (rule appends_extcall) (simp add: is_dispatch_def)
  show ?thesis
  proof (cases "command_threshold bc \<le> v")
    case False
    with assms have "cycle w bc rc s = extcall w (Sleep 0.1) s2"
      by (simp add: cycle_def poll_def bind_def andthen_def ret_def p)
    moreover obtain d' where "trace (snd (extcall w (Sleep 0.1) s2)) = trace s2 @ d'"
      "list_all (\<lambda>ev. \<not> is_dispatch ev) d'"
      using sleep by (rule appendsD)
    ultimately have "filter is_dispatch (new_events s (cycle w bc rc s)) = []"
      using d dn by (simp add: new_events_def filter_none is_dispatch_def)
    with False rc2 show ?thesis by auto
  next
    case True
    let ?s3 = "s2\<lparr>trace := trace s2 @ [Log_info ''High concentration detected'']\<rparr>"
    from True assms have c: "cycle w bc rc s =
        andthen (move_forward w rc) (extcall w (Sleep 0.1)) ?s3"
      by (simp add: cycle_def poll_def bind_def andthen_def ret_def p log_info_def emit_def)
    obtain d' where d': "trace (snd (cycle w bc rc s)) = trace (snd (move_forward w rc ?s3)) @ d'"
      "list_all (\<lambda>ev. \<not> is_dispatch ev) d'"
      using tail_andthen[OF sleep, of "move_forward w rc" ?s3] by (auto simp: c)
    obtain dm where dm: "trace (snd (move_forward w rc ?s3)) = trace ?s3 @ dm"
      using appends_move_forward[of w rc] by (rule appendsD)
    have "filter is_dispatch d' = []" using d'(2) by (simp add: filter_none)
    with d'(1) dm d dn
    have "filter is_dispatch (new_events s (cycle w bc rc s)) = filter is_dispatch dm"
      by (simp add: new_events_def is_dispatch_def)
    moreover from dm have "new_events ?s3 (move_forward w rc ?s3) = dm"
      by (simp add: new_events_def)
    moreover have "robot_conn ?s3" using rc2 by simp
    ultimately show ?thesis using True by (intro exI[of _ ?s3]) simp
  qed
qed

lemma new_events_appended:
  "trace (snd result) = trace s @ d \<Longrightarrow> new_events s result = d"
  by (simp add: new_events_def)

lemma cycle_dispatch_cases:
  "board s \<and> robot_conn s \<and> get_current_board_data w (trace s) = Inr data \<and>
   0 < data_size data \<and>
   fst (process_brain_data w data
     (s\<lparr>trace := trace s @ [Ext (Get_current_board_data (window_size bc)) None]\<rparr>)) = Ret v
   \<longrightarrow>
   (v < command_threshold bc \<longrightarrow>
      filter is_dispatch (new_events s (cycle w bc rc s)) = [])
   \<and>
   (command_threshold bc \<le> v \<longrightarrow>
      (\<exists>e. filter is_dispatch (new_events s (cycle w bc rc s)) =
              [Ext (Sport_move (move_speed rc) 0 0) (Some e)])
      \<or> filter is_dispatch (new_events s (cycle w bc rc s)) =
              [Ext (Sport_move (move_speed rc) 0 0) None]
      \<or> (\<exists>outcome. filter is_dispatch (new_events s (cycle w bc rc s)) =
              [Ext (Sport_move (move_speed rc) 0 0) None, Ext (Sport_move 0 0 0) outcome]))
   \<and>
   (command_threshold bc \<le> v \<and> (\<forall>tr c. raises w tr c = None) \<longrightarrow>
      filter is_dispatch (new_events s (cycle w bc rc s)) =
        [Ext (Sport_move (move_speed rc) 0 0) None, Ext (Sport_move 0 0 0) None])"
proof (intro impI)
  assume a: "board s \<and> robot_conn s \<and> get_current_board_data w (trace s) = Inr data \<and>
   0 < data_size data \<and>
   fst (process_brain_data w data
     (s\<lparr>trace := trace s @ [Ext (Get_current_board_data (window_size bc)) None]\<rparr>)) = Ret v"
  then obtain s3 :: brainflow_controller where s3: "robot_conn s3"
    and D: "filter is_dispatch (new_events s (cycle w bc rc s)) =
       (if command_threshold bc \<le> v
        then filter is_dispatch (new_events s3 (move_forward w rc s3)) else [])"
    using cycle_dispatch[of s w data bc v rc] by blast
  obtain d where d: "trace (snd (move_forward w rc s3)) = trace s3 @ d"
    and shape: "(\<exists>e. filter is_dispatch d = [Ext (Sport_move (move_speed rc) 0 0) (Some e)])
      \<or> filter is_dispatch d = [Ext (Sport_move (move_speed rc) 0 0) None]
      \<or> (\<exists>outcome. filter is_dispatch d =
            [Ext (Sport_move (move_speed rc) 0 0) None, Ext (Sport_move 0 0 0) outcome])"
    using move_forward_shape[OF s3, of w rc] by blast
  from d have n: "new_events s3 (move_forward w rc s3) = d"
    by (rule new_events_appended)
  show "(v < command_threshold bc \<longrightarrow>
      filter is_dispatch (new_events s (cycle w bc rc s)) = [])
   \<and>
   (command_threshold bc \<le> v \<longrightarrow>
      (\<exists>e. filter is_dispatch (new_events s (cycle w bc rc s)) =
              [Ext (Sport_move (move_speed rc) 0 0) (Some e)])
      \<or> filter is_dispatch (new_events s (cycle w bc rc s)) =
              [Ext (Sport_move (move_speed rc) 0 0) None]
      \<or> (\<exists>outcome. filter is_dispatch (new_events s (cycle w bc rc s)) =
              [Ext (Sport_move (move_speed rc) 0 0) None, Ext (Sport_move 0 0 0) outcome]))
   \<and>
   (command_threshold bc \<le> v \<and> (\<forall>tr c. raises w tr c = None) \<longrightarrow>
      filter is_dispatch (new_events s (cycle w bc rc s)) =
        [Ext (Sport_move (move_speed rc) 0 0) None, Ext (Sport_move 0 0 0) None])"
  proof (intro conjI impI)
    assume "v < command_threshold bc"
    with D show "filter is_dispatch (new_events s (cycle w bc rc s)) = []" by simp
  next
    assume "command_threshold bc \<le> v"
    with D n shape show "(\<exists>e. filter is_dispatch (new_events s (cycle w bc rc s)) =
              [Ext (Sport_move (move_speed rc) 0 0) (Some e)])
      \<or> filter is_dispatch (new_events s (cycle w bc rc s)) =
              [Ext (Sport_move (move_speed rc) 0 0) None]
      \<or> (\<exists>outcome. filter is_dispatch (new_events s (cycle w bc rc s)) =
              [Ext (Sport_move (move_speed rc) 0 0) None, Ext (Sport_move 0 0 0) outcome])"
      by simp
  next
    assume b: "command_threshold bc \<le> v \<and> (\<forall>tr c. raises w tr c = None)"
    then have "new_events s3 (move_forward w rc s3) =
        [Ext (Sport_move (move_speed rc) 0 0) None, Log_info ''Moving forward'',
         Ext (Sleep (move_duration rc)) None, Ext (Sport_move 0 0 0) None]"
      using move_forward_all_return[OF s3, of w rc] by (simp add: new_events_def)
    with D b show "filter is_dispatch (new_events s (cycle w bc rc s)) =
        [Ext (Sport_move (move_speed rc) 0 0) None, Ext (Sport_move 0 0 0) None]"
      by (simp add: is_dispatch_def)
  qed
qed

lemma event_dispatch_cases:
  "mental_command_data = Some d \<and> d \<noteq> [] \<and>
   dict_get d ''command'' PNone = PStr ''push'' \<and>
   dict_get d ''power'' (PNum 0) = PNum p \<and> robot_conn t
   \<longrightarrow>
   (p < emotiv_command_threshold ec \<longrightarrow>
      filter is_dispatch
        (new_events t (process_mental_commands w ec rc mental_command_data t)) = [])
   \<and>
   (emotiv_command_threshold ec \<le> p \<longrightarrow>
      (\<exists>e. filter is_dispatch
              (new_events t (process_mental_commands w ec rc mental_command_data t)) =
              [Ext (Sport_move (move_speed rc) 0 0) (Some e)])
      \<or> filter is_dispatch
              (new_events t (process_mental_commands w ec rc mental_command_data t)) =
              [Ext (Sport_move (move_speed rc) 0 0) None]
      \<or> (\<exists>outcome. filter is_dispatch
              (new_events t (process_mental_commands w ec rc mental_command_data t)) =
              [Ext (Sport_move (move_speed rc) 0 0) None, Ext (Sport_move 0 0 0) outcome]))
   \<and>
   (emotiv_command_threshold ec \<le> p \<and> (\<forall>tr c. raises w tr c = None) \<longrightarrow>
      filter is_dispatch
        (new_events t (process_mental_commands w ec rc mental_command_data t)) =
        [Ext (Sport_move (move_speed rc) 0 0) None, Ext (Sport_move 0 0 0) None])"
proof (intro impI)
  let ?D = "filter is_dispatch
        (new_events t (process_mental_commands w ec rc mental_command_data t))"
  let ?t3 = "t\<lparr>trace := trace t @ [Log_info ''Push command detected'']\<rparr>"
  assume a: "mental_command_data = Some d \<and> d \<noteq> [] \<and>
   dict_get d ''command'' PNone = PStr ''push'' \<and>
   dict_get d ''power'' (PNum 0) = PNum p \<and> robot_conn t"
  then have t3: "robot_conn ?t3" by simp
  obtain dm where dm: "trace (snd (move_forward w rc ?t3)) = trace ?t3 @ dm"
    and shape: "(\<exists>e. filter is_dispatch dm = [Ext (Sport_move (move_speed rc) 0 0) (Some e)])
      \<or> filter is_dispatch dm = [Ext (Sport_move (move_speed rc) 0 0) None]
      \<or> (\<exists>outcome. filter is_dispatch dm =
            [Ext (Sport_move (move_speed rc) 0 0) None, Ext (Sport_move 0 0 0) outcome])"
    using move_forward_shape[OF t3, of w rc] by blast
  have low: "?D = []" if "p < emotiv_command_threshold ec"
  proof -
    from a that have "process_mental_commands w ec rc mental_command_data t = (Ret (), t)"
      by (simp add: process_mental_commands_def bind_def ret_def)
    then show ?thesis by (simp add: new_events_def)
  qed
  have high: "?D = filter is_dispatch dm" if "emotiv_command_threshold ec \<le> p"
  proof -
    from a that have "process_mental_commands w ec rc mental_command_data t =
        move_forward w rc ?t3"
      by (simp add: process_mental_commands_trigger andthen_def bind_def log_info_def emit_def)
    with dm show ?thesis by (simp add: new_events_def is_dispatch_def)
  qed
  have calm: "filter is_dispatch dm =
      [Ext (Sport_move (move_speed rc) 0 0) None, Ext (Sport_move 0 0 0) None]"
    if "\<forall>tr c. raises w tr c = None"
    using move_forward_all_return[OF t3 that, of rc] dm by (auto simp: is_dispatch_def)
  show "(p < emotiv_command_threshold ec \<longrightarrow> ?D = [])
   \<and>
   (emotiv_command_threshold ec \<le> p \<longrightarrow>
      (\<exists>e. ?D = [Ext (Sport_move (move_speed rc) 0 0) (Some e)])
      \<or> ?D = [Ext (Sport_move (move_speed rc) 0 0) None]
      \<or> (\<exists>outcome. ?D =
              [Ext (Sport_move (move_speed rc) 0 0) None, Ext (Sport_move 0 0 0) outcome]))
   \<and>
   (emotiv_command_threshold ec \<le> p \<and> (\<forall>tr c. raises w tr c = None) \<longrightarrow>
      ?D = [Ext (Sport_move (move_speed rc) 0 0) None, Ext (Sport_move 0 0 0) None])"
    using low high calm shape by auto
qed

lemma move_forward_exact:
  assumes "robot_conn s"
  shows "filter is_dispatch (new_events s (move_forward w rc s)) =
     (case raises w (trace s) (Sport_move (move_speed rc) 0 0) of
        Some e \<Rightarrow> [Ext (Sport_move (move_speed rc) 0 0) (Some e)]
      | None \<Rightarrow>
          (case raises w
              (trace s @ [Ext (Sport_move (move_speed rc) 0 0) None, Log_info ''Moving forward''])
              (Sleep (move_duration rc)) of
             Some e \<Rightarrow> [Ext (Sport_move (move_speed rc) 0 0) None]
           | None \<Rightarrow>
               [Ext (Sport_move (move_speed rc) 0 0) None,
                Ext (Sport_move 0 0 0)
                  (raises w
                     (trace s @ [Ext (Sport_move (move_speed rc) 0 0) None,
                        Log_info ''Moving forward'', Ext (Sleep (move_duration rc)) None])
                     (Sport_move 0 0 0))]))"
proof (cases "raises w (trace s) (Sport_move (move_speed rc) 0 0)")
  case (Some e)
  with assms show ?thesis
    by (cases e) (simp_all add: move_forward_def prog_defs is_dispatch_def new_events_def)
next
  case None
  note move = None
  let ?t1 = "trace s @ [Ext (Sport_move (move_speed rc) 0 0) None, Log_info ''Moving forward'']"
  show ?thesis
  proof (cases "raises w ?t1 (Sleep (move_duration rc))")
    case (Some e)
    with assms move show ?thesis
      by (cases e) (simp_all add: move_forward_def prog_defs is_dispatch_def new_events_def)
  next
    case None
    note wait = None
    show ?thesis
    proof (cases "raises w (?t1 @ [Ext (Sleep (move_duration rc)) None]) (Sport_move 0 0 0)")
      case None
      with assms move wait show ?thesis
        by (simp add: move_forward_def prog_defs is_dispatch_def new_events_def)
    next
      case (Some e)
      with assms move wait show ?thesis
        by (cases e) (simp_all add: move_forward_def prog_defs is_dispatch_def new_events_def)
    qed
  qed
qed

lemma cycle_dispatch_at:
  assumes "board s" "robot_conn s" "get_current_board_data w (trace s) = Inr data"
    "0 < data_size data"
    "fst (process_brain_data w data
       (s\<lparr>trace := trace s @ [Ext (Get_current_board_data (window_size bc)) None]\<rparr>)) = Ret v"
    "command_threshold bc \<le> v"
  shows "filter is_dispatch (new_events s (cycle w bc rc s)) =
     filter is_dispatch
       (new_events
          ((snd (process_brain_data w data
             (s\<lparr>trace := trace s @ [Ext (Get_current_board_data (window_size bc)) None]\<rparr>)))
           \<lparr>trace := trace (snd (process_brain_data w data
                (s\<lparr>trace := trace s @ [Ext (Get_current_board_data (window_size bc)) None]\<rparr>))) @
              [Log_info ''High concentration detected'']\<rparr>)
          (move_forward w rc
            ((snd (process_brain_data w data
               (s\<lparr>trace := trace s @ [Ext (Get_current_board_data (window_size bc)) None]\<rparr>)))
             \<lparr>trace := trace (snd (process_brain_data w data
                  (s\<lparr>trace := trace s @ [Ext (Get_current_board_data (window_size bc)) None]\<rparr>))) @
                [Log_info ''High concentration detected'']\<rparr>)))"
    and "robot_conn (snd (process_brain_data w data
       (s\<lparr>trace := trace s @ [Ext (Get_current_board_data (window_size bc)) None]\<rparr>)))"
proof -
  let ?P = "\<lambda>ev. \<not> is_dispatch ev \<and> \<not> is_cleanup_entry ev \<and> \<not> is_connect ev"
  let ?s1 = "s\<lparr>trace := trace s @ [Ext (Get_current_board_data (window_size bc)) None]\<rparr>"
  obtain s2 where p: "process_brain_data w data ?s1 = (Ret v, s2)"
    using assms(5) by (cases "process_brain_data w data ?s1") simp
  obtain d where "trace (snd (process_brain_data w data ?s1)) = trace ?s1 @ d" "list_all ?P d"
    using appends_process_brain_data[of w data] by (rule appendsD)
  then have d: "trace s2 = trace s @ Ext (Get_current_board_data (window_size bc)) None # d"
    and dn: "filter is_dispatch d = []"
    by (simp_all add: p filter_none)
  have rc2: "robot_conn s2"
    using process_brain_data_frame[of w data ?s1] assms(2) by (simp add: p)
  have sleep: "appends (\<lambda>ev. \<not> is_dispatch ev) (extcall w (Sleep 0.1))"
    by (rule appends_extcall) (simp add: is_dispatch_def)
  let ?s3 = "s2\<lparr>trace := trace s2 @ [Log_info ''High concentration detected'']\<rparr>"
  from assms have c: "cycle w bc rc s =
      andthen (move_forward w rc) (extcall w (Sleep 0.1)) ?s3"
    by (simp add: cycle_def poll_def bind_def andthen_def ret_def p log_info_def emit_def)
  obtain d' where d': "trace (snd (cycle w bc rc s)) = trace (snd (move_forward w rc ?s3)) @ d'"
    "list_all (\<lambda>ev. \<not> is_dispatch ev) d'"
    using tail_andthen[OF sleep, of "move_forward w rc" ?s3] by (auto simp: c)
  obtain dm where dm: "trace (snd (move_forward w rc ?s3)) = trace ?s3 @ dm"
    using appends_move_forward[of w rc] by (rule appendsD)
  have "filter is_dispatch d' = []" using d'(2) by (simp add: filter_none)
  with d'(1) dm d dn
  have "filter is_dispatch (new_events s (cycle w bc rc s)) = filter is_dispatch dm"
    by (simp add: new_events_def is_dispatch_def)
  moreover from dm have "new_events ?s3 (move_forward w rc ?s3) = dm"
    by (simp add: new_events_def)
  ultimately have "filter is_dispatch (new_events s (cycle w bc rc s)) =
      filter is_dispatch (new_events ?s3 (move_forward w rc ?s3))"
    by simp
  then show "filter is_dispatch (new_events s (cycle w bc rc s)) =
     filter is_dispatch
       (new_events
          ((snd (process_brain_data w data ?s1))
           \<lparr>trace := trace (snd (process_brain_data w data ?s1)) @
              [Log_info ''High concentration detected'']\<rparr>)
          (move_forward w rc
            ((snd (process_brain_data w data ?s1))
             \<lparr>trace := trace (snd (process_brain_data w data ?s1)) @
                [Log_info ''High concentration detected'']\<rparr>)))"
    by (simp add: p)
  show "robot_conn (snd (process_brain_data w data ?s1))"
    using rc2 by (simp add: p)
qed

lemma cycle_dispatch_exact:
  "board s \<and> robot_conn s \<and> get_current_board_data w (trace s) = Inr data \<and>
   0 < data_size data \<and>
   fst (process_brain_data w data
     (s\<lparr>trace := trace s @ [Ext (Get_current_board_data (window_size bc)) None]\<rparr>)) = Ret v \<and>
   command_threshold bc \<le> v
   \<longrightarrow>
   (let t3 = trace (snd (process_brain_data w data
               (s\<lparr>trace := trace s @
                  [Ext (Get_current_board_data (window_size bc)) None]\<rparr>))) @
             [Log_info ''High concentration detected''];
        t4 = t3 @ [Ext (Sport_move (move_speed rc) 0 0) None, Log_info ''Moving forward''];
        t5 = t4 @ [Ext (Sleep (move_duration rc)) None]
    in (\<forall>e. raises w t3 (Sport_move (move_speed rc) 0 0) = Some e \<longrightarrow>
          filter is_dispatch (new_events s (cycle w bc rc s)) =
            [Ext (Sport_move (move_speed rc) 0 0) (Some e)])
       \<and>
       (\<forall>e. raises w t3 (Sport_move (move_speed rc) 0 0) = None \<and>
            raises w t4 (Sleep (move_duration rc)) = Some e \<longrightarrow>
          filter is_dispatch (new_events s (cycle w bc rc s)) =
            [Ext (Sport_move (move_speed rc) 0 0) None])
       \<and>
       (raises w t3 (Sport_move (move_speed rc) 0 0) = None \<and>
        raises w t4 (Sleep (move_duration rc)) = None \<longrightarrow>
          filter is_dispatch (new_events s (cycle w bc rc s)) =
            [Ext (Sport_move (move_speed rc) 0 0) None,
             Ext (Sport_move 0 0 0) (raises w t5 (Sport_move 0 0 0))]))"
proof (intro impI)
  let ?s1 = "s\<lparr>trace := trace s @ [Ext (Get_current_board_data (window_size bc)) None]\<rparr>"
  let ?s2 = "snd (process_brain_data w data ?s1)"
  let ?s3 = "?s2\<lparr>trace := trace ?s2 @ [Log_info ''High concentration detected'']\<rparr>"
  assume a: "board s \<and> robot_conn s \<and> get_current_board_data w (trace s) = Inr data \<and>
   0 < data_size data \<and> fst (process_brain_data w data ?s1) = Ret v \<and>
   command_threshold bc \<le> v"
  then have D: "filter is_dispatch (new_events s (cycle w bc rc s)) =
      filter is_dispatch (new_events ?s3 (move_forward w rc ?s3))"
    using cycle_dispatch_at(1)[where s = s and w = w and data = data and bc = bc and v = v
        and rc = rc]
    by simp
  from a have "robot_conn ?s2"
    using cycle_dispatch_at(2)[where s = s and w = w and data = data and bc = bc and v = v]
    by simp
  then have "robot_conn ?s3" by simp
  from move_forward_exact[OF this, of w rc] D
  show "let t3 = trace ?s2 @ [Log_info ''High concentration detected''];
        t4 = t3 @ [Ext (Sport_move (move_speed rc) 0 0) None, Log_info ''Moving forward''];
        t5 = t4 @ [Ext (Sleep (move_duration rc)) None]
    in (\<forall>e. raises w t3 (Sport_move (move_speed rc) 0 0) = Some e \<longrightarrow>
          filter is_dispatch (new_events s (cycle w bc rc s)) =
            [Ext (Sport_move (move_speed rc) 0 0) (Some e)])
       \<and>
       (\<forall>e. raises w t3 (Sport_move (move_speed rc) 0 0) = None \<and>
            raises w t4 (Sleep (move_duration rc)) = Some e \<longrightarrow>
          filter is_dispatch (new_events s (cycle w bc rc s)) =
            [Ext (Sport_move (move_speed rc) 0 0) None])
       \<and>
       (raises w t3 (Sport_move (move_speed rc) 0 0) = None \<and>
        raises w t4 (Sleep (move_duration rc)) = None \<longrightarrow>
          filter is_dispatch (new_events s (cycle w bc rc s)) =
            [Ext (Sport_move (move_speed rc) 0 0) None,
             Ext (Sport_move 0 0 0) (raises w t5 (Sport_move 0 0 0))])"
    by (auto simp: Let_def split: option.splits)
qed

lemma event_dispatch_exact:
  "mental_command_data = Some d \<and> d \<noteq> [] \<and>
   dict_get d ''command'' PNone = PStr ''push'' \<and>
   dict_get d ''power'' (PNum 0) = PNum p \<and> robot_conn t \<and>
   emotiv_command_threshold ec \<le> p
   \<longrightarrow>
   (let t3 = trace t @ [Log_info ''Push command detected''];
        t4 = t3 @ [Ext (Sport_move (move_speed rc) 0 0) None, Log_info ''Moving forward''];
        t5 = t4 @ [Ext (Sleep (move_duration rc)) None]
    in (\<forall>e. raises w t3 (Sport_move (move_speed rc) 0 0) = Some e \<longrightarrow>
          filter is_dispatch
            (new_events t (process_mental_commands w ec rc mental_command_data t)) =
            [Ext (Sport_move (move_speed rc) 0 0) (Some e)])
       \<and>
       (\<forall>e. raises w t3 (Sport_move (move_speed rc) 0 0) = None \<and>
            raises w t4 (Sleep (move_duration rc)) = Some e \<longrightarrow>
          filter is_dispatch
            (new_events t (process_mental_commands w ec rc mental_command_data t)) =
            [Ext (Sport_move (move_speed rc) 0 0) None])
       \<and>
       (raises w t3 (Sport_move (move_speed rc) 0 0) = None \<and>
        raises w t4 (Sleep (move_duration rc)) = None \<longrightarrow>
          filter is_dispatch
            (new_events t (process_mental_commands w ec rc mental_command_data t)) =
            [Ext (Sport_move (move_speed rc) 0 0) None,
             Ext (Sport_move 0 0 0) (raises w t5 (Sport_move 0 0 0))]))"
proof (intro impI)
  let ?t3 = "t\<lparr>trace := trace t @ [Log_info ''Push command detected'']\<rparr>"
  assume a: "mental_command_data = Some d \<and> d \<noteq> [] \<and>
   dict_get d ''command'' PNone = PStr ''push'' \<and>
   dict_get d ''power'' (PNum 0) = PNum p \<and> robot_conn t \<and>
   emotiv_command_threshold ec \<le> p"
  then have t3: "robot_conn ?t3" by simp
  from a have "process_mental_commands w ec rc mental_command_data t =
      move_forward w rc ?t3"
    by (simp add: process_mental_commands_trigger andthen_def bind_def log_info_def emit_def)
  moreover obtain dm where dm: "trace (snd (move_forward w rc ?t3)) = trace ?t3 @ dm"
    using appends_move_forward[of w rc] by (rule appendsD)
  ultimately have D: "filter is_dispatch
      (new_events t (process_mental_commands w ec rc mental_command_data t)) =
      filter is_dispatch (new_events ?t3 (move_forward w rc ?t3))"
    by (simp add: new_events_def is_dispatch_def)
  from move_forward_exact[OF t3, of w rc] D
  show "let t3 = trace t @ [Log_info ''Push command detected''];
        t4 = t3 @ [Ext (Sport_move (move_speed rc) 0 0) None, Log_info ''Moving forward''];
        t5 = t4 @ [Ext (Sleep (move_duration rc)) None]
    in (\<forall>e. raises w t3 (Sport_move (move_speed rc) 0 0) = Some e \<longrightarrow>
          filter is_dispatch
            (new_events t (process_mental_commands w ec rc mental_command_data t)) =
            [Ext (Sport_move (move_speed rc) 0 0) (Some e)])
       \<and>
       (\<forall>e. raises w t3 (Sport_move (move_speed rc) 0 0) = None \<and>
            raises w t4 (Sleep (move_duration rc)) = Some e \<longrightarrow>
          filter is_dispatch
            (new_events t (process_mental_commands w ec rc mental_command_data t)) =
            [Ext (Sport_move (move_speed rc) 0 0) None])
       \<and>
       (raises w t3 (Sport_move (move_speed rc) 0 0) = None \<and>
        raises w t4 (Sleep (move_duration rc)) = None \<longrightarrow>
          filter is_dispatch
            (new_events t (process_mental_commands w ec rc mental_command_data t)) =
            [Ext (Sport_move (move_speed rc) 0 0) None,
             Ext (Sport_move 0 0 0) (raises w t5 (Sport_move 0 0 0))])"
    by (auto simp: Let_def split: option.splits)
qed

text \<open>
  C1 (as the code has it). In a cycle whose poll returned a window and whose score is
  \<open>v\<close>: below the threshold nothing is sent to the actuator. At or above the threshold
  exactly one forward command is sent; a stop command follows it only after the forward
  command was accepted, and then there is exactly one, directly after it; when no
  external call raises, the cycle sends exactly the accepted forward command and the
  accepted stop command. When the forward command (or the wait after it) raises, no stop
  command is sent in that cycle. The same holds in the Emotiv script for one
  \<^verbatim>\<open>'push'\<close> event with a numeric power in the place of the score. The last two
  parts say it call by call, with \<open>t3\<close>, \<open>t4\<close>, \<open>t5\<close> the traces at which the
  world is asked about the forward command, the wait and the stop command: a forward
  command that raises is the only command of the cycle; a forward command that returns
  followed by a wait that raises is the only command of the cycle; a forward command
  and a wait that both return are followed by exactly one stop command, whatever that
  stop command does.
\<close>

theorem cycle_sends_move_then_stop:
  "(board s \<and> robot_conn s \<and> get_current_board_data w (trace s) = Inr data \<and>
   0 < data_size data \<and>
   fst (process_brain_data w data
     (s\<lparr>trace := trace s @ [Ext (Get_current_board_data (window_size bc)) None]\<rparr>)) = Ret v
   \<longrightarrow>
   (v < command_threshold bc \<longrightarrow>
      filter is_dispatch (new_events s (cycle w bc rc s)) = [])
   \<and>
   (command_threshold bc \<le> v \<longrightarrow>
      (\<exists>e. filter is_dispatch (new_events s (cycle w bc rc s)) =
              [Ext (Sport_move (move_speed rc) 0 0) (Some e)])
      \<or> filter is_dispatch (new_events s (cycle w bc rc s)) =
              [Ext (Sport_move (move_speed rc) 0 0) None]
      \<or> (\<exists>outcome. filter is_dispatch (new_events s (cycle w bc rc s)) =
              [Ext (Sport_move (move_speed rc) 0 0) None, Ext (Sport_move 0 0 0) outcome]))
   \<and>
   (command_threshold bc \<le> v \<and> (\<forall>tr c. raises w tr c = None) \<longrightarrow>
      filter is_dispatch (new_events s (cycle w bc rc s)) =
        [Ext (Sport_move (move_speed rc) 0 0) None, Ext (Sport_move 0 0 0) None]))
   \<and>
   (mental_command_data = Some d \<and> d \<noteq> [] \<and>
   dict_get d ''command'' PNone = PStr ''push'' \<and>
   dict_get d ''power'' (PNum 0) = PNum p \<and> robot_conn t
   \<longrightarrow>
   (p < emotiv_command_threshold ec \<longrightarrow>
      filter is_dispatch
        (new_events t (process_mental_commands w ec rc mental_command_data t)) = [])
   \<and>
   (emotiv_command_threshold ec \<le> p \<longrightarrow>
      (\<exists>e. filter is_dispatch
              (new_events t (process_mental_commands w ec rc mental_command_data t)) =
              [Ext (Sport_move (move_speed rc) 0 0) (Some e)])
      \<or> filter is_dispatch
              (new_events t (process_mental_commands w ec rc mental_command_data t)) =
              [Ext (Sport_move (move_speed rc) 0 0) None]
      \<or> (\<exists>outcome. filter is_dispatch
              (new_events t (process_mental_commands w ec rc mental_command_data t)) =
              [Ext (Sport_move (move_speed rc) 0 0) None, Ext (Sport_move 0 0 0) outcome]))
   \<and>
   (emotiv_command_threshold ec \<le> p \<and> (\<forall>tr c. raises w tr c = None) \<longrightarrow>
      filter is_dispatch
        (new_events t (process_mental_commands w ec rc mental_command_data t)) =
        [Ext (Sport_move (move_speed rc) 0 0) None, Ext (Sport_move 0 0 0) None]))
   \<and>
   (board s \<and> robot_conn s \<and> get_current_board_data w (trace s) = Inr data \<and>
   0 < data_size data \<and>
   fst (process_brain_data w data
     (s\<lparr>trace := trace s @ [Ext (Get_current_board_data (window_size bc)) None]\<rparr>)) = Ret v \<and>
   command_threshold bc \<le> v
   \<longrightarrow>
   (let t3 = trace (snd (process_brain_data w data
               (s\<lparr>trace := trace s @
                  [Ext (Get_current_board_data (window_size bc)) None]\<rparr>))) @
             [Log_info ''High concentration detected''];
        t4 = t3 @ [Ext (Sport_move (move_speed rc) 0 0) None, Log_info ''Moving forward''];
        t5 = t4 @ [Ext (Sleep (move_duration rc)) None]
    in (\<forall>e. raises w t3 (Sport_move (move_speed rc) 0 0) = Some e \<longrightarrow>
          filter is_dispatch (new_events s (cycle w bc rc s)) =
            [Ext (Sport_move (move_speed rc) 0 0) (Some e)])
       \<and>
       (\<forall>e. raises w t3 (Sport_move (move_speed rc) 0 0) = None \<and>
            raises w t4 (Sleep (move_duration rc)) = Some e \<longrightarrow>
          filter is_dispatch (new_events s (cycle w bc rc s)) =
            [Ext (Sport_move (move_speed rc) 0 0) None])
       \<and>
       (raises w t3 (Sport_move (move_speed rc) 0 0) = None \<and>
        raises w t4 (Sleep (move_duration rc)) = None \<longrightarrow>
          filter is_dispatch (new_events s (cycle w bc rc s)) =
            [Ext (Sport_move (move_speed rc) 0 0) None,
             Ext (Sport_move 0 0 0) (raises w t5 (Sport_move 0 0 0))])))
   \<and>
   (mental_command_data = Some d \<and> d \<noteq> [] \<and>
   dict_get d ''command'' PNone = PStr ''push'' \<and>
   dict_get d ''power'' (PNum 0) = PNum p \<and> robot_conn t \<and>
   emotiv_command_threshold ec \<le> p
   \<longrightarrow>
   (let t3 = trace t @ [Log_info ''Push command detected''];
        t4 = t3 @ [Ext (Sport_move (move_speed rc) 0 0) None, Log_info ''Moving forward''];
        t5 = t4 @ [Ext (Sleep (move_duration rc)) None]
    in (\<forall>e. raises w t3 (Sport_move (move_speed rc) 0 0) = Some e \<longrightarrow>
          filter is_dispatch
            (new_events t (process_mental_commands w ec rc mental_command_data t)) =
            [Ext (Sport_move (move_speed rc) 0 0) (Some e)])
       \<and>
       (\<forall>e. raises w t3 (Sport_move (move_speed rc) 0 0) = None \<and>
            raises w t4 (Sleep (move_duration rc)) = Some e \<longrightarrow>
          filter is_dispatch
            (new_events t (process_mental_commands w ec rc mental_command_data t)) =
            [Ext (Sport_move (move_speed rc) 0 0) None])
       \<and>
       (raises w t3 (Sport_move (move_speed rc) 0 0) = None \<and>
        raises w t4 (Sleep (move_duration rc)) = None \<longrightarrow>
          filter is_dispatch
            (new_events t (process_mental_commands w ec rc mental_command_data t)) =
            [Ext (Sport_move (move_speed rc) 0 0) None,
             Ext (Sport_move 0 0 0) (raises w t5 (Sport_move 0 0 0))])))"
  by (intro conjI cycle_dispatch_cases event_dispatch_cases cycle_dispatch_exact
        event_dispatch_exact)

theorem cycle_sends_move_then_stop_witness:
  "fst (process_brain_data (steady 0.7) [[1]]
     (live\<lparr>trace := trace live @
        [Ext (Get_current_board_data (window_size main_bci_config)) None]\<rparr>)) = Ret 0.7
   \<and> command_threshold main_bci_config \<le> 0.7
   \<and> filter is_dispatch
       (new_events live (cycle (steady 0.7) main_bci_config main_robot_config live)) =
       [Ext (Sport_move (move_speed main_robot_config) 0 0) None, Ext (Sport_move 0 0 0) None]
   \<and> fst (process_brain_data (steady 0.2) [[1]]
     (live\<lparr>trace := trace live @
        [Ext (Get_current_board_data (window_size main_bci_config)) None]\<rparr>)) = Ret 0.2
   \<and> 0.2 < command_threshold main_bci_config
   \<and> filter is_dispatch
       (new_events live (cycle (steady 0.2) main_bci_config main_robot_config live)) = []
   \<and> emotiv_command_threshold main_emotiv_config \<le> 0.8
   \<and> filter is_dispatch
       (new_events emotiv_live
          (process_mental_commands calm main_emotiv_config main_robot_config
             (Some strong_push) emotiv_live)) =
       [Ext (Sport_move (move_speed main_robot_config) 0 0) None, Ext (Sport_move 0 0 0) None]
   \<and> filter is_dispatch
       (new_events live (cycle move_rejected main_bci_config main_robot_config live)) =
       [Ext (Sport_move (move_speed main_robot_config) 0 0) (Some Error)]
   \<and> filter is_dispatch
       (new_events live (cycle wait_fails main_bci_config main_robot_config live)) =
       [Ext (Sport_move (move_speed main_robot_config) 0 0) None]"
proof -
  have g: "board live \<and> robot_conn live \<and>
      get_current_board_data move_rejected (trace live) = Inr [[1]] \<and> 0 < data_size [[1]] \<and>
      fst (process_brain_data move_rejected [[1]]
        (live\<lparr>trace := trace live @
           [Ext (Get_current_board_data (window_size main_bci_config)) None]\<rparr>)) = Ret 0.7 \<and>
      command_threshold main_bci_config \<le> 0.7"
    by (simp add: process_brain_data_def score_computation_def prog_defs world_defs data_size_def)
  have g': "raises move_rejected
      (trace (snd (process_brain_data move_rejected [[1]]
         (live\<lparr>trace := trace live @
            [Ext (Get_current_board_data (window_size main_bci_config)) None]\<rparr>))) @
       [Log_info ''High concentration detected''])
      (Sport_move (move_speed main_robot_config) 0 0) = Some Error"
    by (simp add: world_defs)
  from g g'
    cycle_sends_move_then_stop[where s = live and w = move_rejected and data = "[[1]]"
      and bc = main_bci_config and rc = main_robot_config and v = "0.7",
      THEN conjunct2, THEN conjunct2, THEN conjunct1, unfolded Let_def]
  have 4: "filter is_dispatch
       (new_events live (cycle move_rejected main_bci_config main_robot_config live)) =
       [Ext (Sport_move (move_speed main_robot_config) 0 0) (Some Error)]"
    by blast
  have h: "board live \<and> robot_conn live \<and>
      get_current_board_data wait_fails (trace live) = Inr [[1]] \<and> 0 < data_size [[1]] \<and>
      fst (process_brain_data wait_fails [[1]]
        (live\<lparr>trace := trace live @
           [Ext (Get_current_board_data (window_size main_bci_config)) None]\<rparr>)) = Ret 0.7 \<and>
      command_threshold main_bci_config \<le> 0.7"
    by (simp add: process_brain_data_def score_computation_def prog_defs world_defs data_size_def)
  have h': "raises wait_fails
      (trace (snd (process_brain_data wait_fails [[1]]
         (live\<lparr>trace := trace live @
            [Ext (Get_current_board_data (window_size main_bci_config)) None]\<rparr>))) @
       [Log_info ''High concentration detected''])
      (Sport_move (move_speed main_robot_config) 0 0) = None
    \<and> raises wait_fails
      ((trace (snd (process_brain_data wait_fails [[1]]
         (live\<lparr>trace := trace live @
            [Ext (Get_current_board_data (window_size main_bci_config)) None]\<rparr>))) @
       [Log_info ''High concentration detected'']) @
       [Ext (Sport_move (move_speed main_robot_config) 0 0) None, Log_info ''Moving forward''])
      (Sleep (move_duration main_robot_config)) = Some Error"
    by (simp add: world_defs)
  from h h'
    cycle_sends_move_then_stop[where s = live and w = wait_fails and data = "[[1]]"
      and bc = main_bci_config and rc = main_robot_config and v = "0.7",
      THEN conjunct2, THEN conjunct2, THEN conjunct1, unfolded Let_def]
  have 5: "filter is_dispatch
       (new_events live (cycle wait_fails main_bci_config main_robot_config live)) =
       [Ext (Sport_move (move_speed main_robot_config) 0 0) None]"
    by blast
  have e: "Some strong_push = Some strong_push \<and> strong_push \<noteq> [] \<and>
      dict_get strong_push ''command'' PNone = PStr ''push'' \<and>
      dict_get strong_push ''power'' (PNum 0) = PNum 0.8 \<and> robot_conn emotiv_live"
    by (simp add: world_defs dict_get_def)
  have f: "emotiv_command_threshold main_emotiv_config \<le> 0.8 \<and>
      (\<forall>tr c. raises calm tr c = None)"
    by (simp add: world_defs)
  from e f
    cycle_sends_move_then_stop[where t = emotiv_live and w = calm
      and mental_command_data = "Some strong_push" and d = strong_push and p = "0.8"
      and ec = main_emotiv_config and rc = main_robot_config,
      THEN conjunct2, THEN conjunct1]
  have 3: "filter is_dispatch
       (new_events emotiv_live
          (process_mental_commands calm main_emotiv_config main_robot_config
             (Some strong_push) emotiv_live)) =
       [Ext (Sport_move (move_speed main_robot_config) 0 0) None, Ext (Sport_move 0 0 0) None]"
    by blast
  have a: "board live \<and> robot_conn live \<and>
      get_current_board_data (steady v) (trace live) = Inr [[1]] \<and> 0 < data_size [[1]] \<and>
      fst (process_brain_data (steady v) [[1]]
        (live\<lparr>trace := trace live @
           [Ext (Get_current_board_data (window_size main_bci_config)) None]\<rparr>)) = Ret v"
    for v
    by (simp add: process_brain_data_def score_computation_def prog_defs world_defs data_size_def)
  have b: "command_threshold main_bci_config \<le> 0.7 \<and>
      (\<forall>tr c. raises (steady 0.7) tr c = None)"
    by (simp add: world_defs)
  have c: "0.2 < command_threshold main_bci_config"
    by (simp add: world_defs)
  from a[of "0.7"] b
    cycle_sends_move_then_stop[where s = live and w = "steady 0.7" and data = "[[1]]"
      and bc = main_bci_config and rc = main_robot_config and v = "0.7", THEN conjunct1]
  have 1: "filter is_dispatch
       (new_events live (cycle (steady 0.7) main_bci_config main_robot_config live)) =
       [Ext (Sport_move (move_speed main_robot_config) 0 0) None, Ext (Sport_move 0 0 0) None]"
    by blast
  from a[of "0.2"] c
    cycle_sends_move_then_stop[where s = live and w = "steady 0.2" and data = "[[1]]"
      and bc = main_bci_config and rc = main_robot_config and v = "0.2", THEN conjunct1]
  have 2: "filter is_dispatch
       (new_events live (cycle (steady 0.2) main_bci_config main_robot_config live)) = []"
    by blast
  from a[of "0.7"] a[of "0.2"] b c f 1 2 3 4 5 show ?thesis by blast
qed

text \<open>
  C1, counterexample: the score 0.7 is above the threshold 0.6 and the actuator rejects
  the forward command. The cycle has sent that one command and no stop command.
\<close>

theorem move_without_stop_counterexample:
  "fst (process_brain_data move_rejected [[1]]
     (live\<lparr>trace := [Ext (Get_current_board_data 256) None]\<rparr>)) = Ret 0.7
   \<and> command_threshold main_bci_config \<le> 0.7
   \<and> cycle move_rejected main_bci_config main_robot_config live =
       (Ret (), live\<lparr>trace :=
          [Ext (Get_current_board_data 256) None, Ext Predict None,
           Log_info ''High concentration detected'',
           Ext (Sport_move 0.5 0 0) (Some Error),
           Log_error ''Movement execution failed'', Ext (Sleep 0.1) None]\<rparr>)
   \<and> filter is_dispatch
       (new_events live (cycle move_rejected main_bci_config main_robot_config live)) =
       [Ext (Sport_move 0.5 0 0) (Some Error)]"
  by (simp add: brainflow_defs prog_defs world_defs new_events_def is_dispatch_def)

section \<open>The order of actuator commands\<close>

lemma filter_dispatch_empty:
  "filter is_dispatch tr = [] \<Longrightarrow> filter is_mode_set tr = [] \<and> filter is_movement tr = []"
  by (auto simp: filter_empty_conv is_dispatch_def)

lemma filter_dispatch_movement:
  "list_all (\<lambda>ev. \<not> is_mode_set ev \<and> \<not> is_connect ev) d \<Longrightarrow>
   filter is_dispatch d = filter is_movement d \<and> filter is_mode_set d = [] \<and>
   Ext Connect None \<notin> set d"
  by (induction d) (auto simp: is_dispatch_def)

lemma mode_set_first_quiet:
  assumes "mode_set_first tr" "list_all (\<lambda>ev. \<not> is_dispatch ev \<and> \<not> is_connect ev) d"
  shows "mode_set_first (tr @ d)"
proof -
  from assms(2) have "filter is_dispatch d = []" "filter is_mode_set d = []"
    "filter is_movement d = []" "Ext Connect None \<notin> set d"
    by (auto simp: list_all_iff filter_empty_conv is_dispatch_def)
  with assms(1) show ?thesis by (simp add: mode_set_first_def)
qed

lemma mode_set_first_moving:
  assumes "Ext Connect None \<in> set tr" "length (filter is_mode_set tr) = 1"
    "filter is_dispatch tr = Ext (Motion_switcher ''normal'') None # filter is_movement tr"
    "list_all (\<lambda>ev. \<not> is_mode_set ev \<and> \<not> is_connect ev) d"
  shows "mode_set_first (tr @ d)"
  using assms filter_dispatch_movement[OF assms(4)] by (simp add: mode_set_first_def)

lemma setup_robot_shape:
  "\<exists>d. trace (snd (setup_robot w s)) = trace s @ d \<and> filter is_movement d = [] \<and>
     filter is_mode_set d = filter is_dispatch d \<and>
     ((Ext Connect None \<notin> set d \<and> filter is_dispatch d = [] \<and>
       fst (setup_robot w s) \<noteq> Ret ()) \<or>
      (Ext Connect None \<in> set d \<and>
       (\<exists>outcome. filter is_dispatch d = [Ext (Motion_switcher ''normal'') outcome] \<and>
          (fst (setup_robot w s) \<noteq> Ret () \<or> outcome = None))))"
proof (cases "raises w (trace s) Conn_new")
  case (Some e)
  then show ?thesis
    by (cases e) (simp_all add: setup_robot_def set_motion_mode_def prog_defs is_dispatch_def)
next
  case None
  note conn_new = None
  show ?thesis
  proof (cases "raises w (trace s @ [Ext Conn_new None]) Connect")
    case (Some e)
    with conn_new show ?thesis
      by (cases e) (simp_all add: setup_robot_def set_motion_mode_def prog_defs is_dispatch_def)
  next
    case None
    note connect = None
    show ?thesis
    proof (cases "raises w (trace s @ [Ext Conn_new None, Ext Connect None])
        (Motion_switcher ''normal'')")
      case (Some e)
      with conn_new connect show ?thesis
        by (cases e)
           (simp_all add: setup_robot_def set_motion_mode_def prog_defs is_dispatch_def)
    next
      case None
      note mode = None
      show ?thesis
      proof (cases "raises w (trace s @ [Ext Conn_new None, Ext Connect None,
          Ext (Motion_switcher ''normal'') None]) (Sleep 2)")
        case (Some e)
        with conn_new connect mode show ?thesis
          by (cases e)
             (simp_all add: setup_robot_def set_motion_mode_def prog_defs is_dispatch_def)
      next
        case None
        with conn_new connect mode show ?thesis
          by (simp add: setup_robot_def set_motion_mode_def prog_defs is_dispatch_def)
      qed
    qed
  qed
qed

lemma andthen_returned:
  "fst (m s) = Ret () \<Longrightarrow> andthen m n s = n (snd (m s))"
  by (cases "m s") (simp add: andthen_def bind_def)

lemma andthen_not_returned:
  "fst (m s) \<noteq> Ret () \<Longrightarrow> snd (andthen m n s) = snd (m s)"
  by (cases "m s"; cases "fst (m s)") (simp_all add: andthen_def bind_def)

lemma appends_after_setup:
  "appends (\<lambda>ev. \<not> is_mode_set ev \<and> \<not> is_connect ev)
     (andthen (\<lambda>s. ret () (s\<lparr>running := True\<rparr>))
        (andthen (log_info ''Starting brain activity monitoring...'')
           (monitor_loop fuel w bc rc)))"
  unfolding log_info_def
  by (intro appends_intros appends_weaken[OF appends_monitor_loop]) simp_all

lemma run_try_mode_set_first:
  assumes "trace s = []"
  shows "mode_set_first (trace (snd (run_try fuel w bc rc s)))"
proof -
  let ?rest = "andthen (\<lambda>s. ret () (s\<lparr>running := True\<rparr>))
        (andthen (log_info ''Starting brain activity monitoring...'')
           (monitor_loop fuel w bc rc))"
  let ?sA = "snd (setup_bci w s)"
  let ?sB = "snd (setup_robot w ?sA)"
  have rt: "run_try fuel w bc rc = andthen (setup_bci w) (andthen (setup_robot w) ?rest)"
    by (simp add: run_try_def)
  obtain d0 where "trace ?sA = trace s @ d0"
    "list_all (\<lambda>ev. \<not> is_dispatch ev \<and> \<not> is_cleanup_entry ev \<and> \<not> is_connect ev) d0"
    using appends_setup_bci[of w] by (rule appendsD)
  with assms have A: "Ext Connect None \<notin> set (trace ?sA)" "filter is_dispatch (trace ?sA) = []"
    by (auto simp: list_all_iff filter_empty_conv)
  note A' = filter_dispatch_empty[OF A(2)]
  show ?thesis
  proof (cases "fst (setup_bci w s) = Ret ()")
    case False
    then have "snd (run_try fuel w bc rc s) = ?sA"
      by (simp add: rt andthen_not_returned)
    with A show ?thesis by (simp add: mode_set_first_def)
  next
    case True
    then have step: "run_try fuel w bc rc s = andthen (setup_robot w) ?rest ?sA"
      by (simp add: rt andthen_returned)
    obtain d where d: "trace ?sB = trace ?sA @ d" "filter is_movement d = []"
      "filter is_mode_set d = filter is_dispatch d"
      and shape: "(Ext Connect None \<notin> set d \<and> filter is_dispatch d = [] \<and>
         fst (setup_robot w ?sA) \<noteq> Ret ()) \<or>
        (Ext Connect None \<in> set d \<and>
         (\<exists>outcome. filter is_dispatch d = [Ext (Motion_switcher ''normal'') outcome] \<and>
            (fst (setup_robot w ?sA) \<noteq> Ret () \<or> outcome = None)))"
      using setup_robot_shape[of w ?sA] by blast
    show ?thesis
    proof (cases "fst (setup_robot w ?sA) = Ret ()")
      case False
      then have "snd (run_try fuel w bc rc s) = ?sB"
        by (simp add: step andthen_not_returned)
      moreover from A A' d shape have "mode_set_first (trace ?sA @ d)"
        by (auto simp: mode_set_first_def)
      ultimately show ?thesis using d(1) by simp
    next
      case True
      with shape have c: "Ext Connect None \<in> set d"
        "filter is_dispatch d = [Ext (Motion_switcher ''normal'') None]"
        by auto
      from True have "run_try fuel w bc rc s = ?rest ?sB"
        by (simp add: step andthen_returned)
      moreover obtain d' where d': "trace (snd (?rest ?sB)) = trace ?sB @ d'"
        "list_all (\<lambda>ev. \<not> is_mode_set ev \<and> \<not> is_connect ev) d'"
        using appends_after_setup[of fuel w bc rc] by (rule appendsD)
      moreover have "mode_set_first ((trace ?sA @ d) @ d')"
        using A A' d c d'(2) by (intro mode_set_first_moving) simp_all
      ultimately show ?thesis using d(1) by simp
    qed
  qed
qed

lemma controller_main_tail:
  "\<exists>d. trace (snd (controller_main fuel w bc rc)) =
         trace (snd (run_try fuel w bc rc init)) @ d \<and>
       list_all (\<lambda>ev. \<not> is_dispatch ev \<and> \<not> is_connect ev) d"
proof -
  let ?P = "\<lambda>ev. \<not> is_dispatch ev \<and> \<not> is_connect ev"
  let ?body = "try_except (run_try fuel w bc rc) is_Exception (\<lambda>e. log_error ''Runtime error'')"
  let ?guarded = "try_except (run fuel w bc rc) is_KeyboardInterrupt
      (\<lambda>e. print_line ''Program interrupted by user'')"
  have log: "appends ?P (log_error msg)" for msg
    unfolding log_error_def by (rule appends_emit) (simp add: is_dispatch_def)
  have print: "appends ?P (print_line msg)" for msg
    unfolding print_line_def by (rule appends_emit) (simp add: is_dispatch_def)
  obtain d1 where d1: "trace (snd (?body init)) = trace (snd (run_try fuel w bc rc init)) @ d1"
    "list_all ?P d1"
    using tail_try_except[of ?P "\<lambda>e. log_error ''Runtime error''" "run_try fuel w bc rc"
        is_Exception init] log
    by blast
  obtain d2 where d2: "trace (snd (run fuel w bc rc init)) = trace (snd (?body init)) @ d2"
    "list_all ?P d2"
    using tail_try_finally[OF appends_cleanup, of ?body w init] by (auto simp: run_def)
  obtain d3 where d3: "trace (snd (?guarded init)) = trace (snd (run fuel w bc rc init)) @ d3"
    "list_all ?P d3"
    using tail_try_except[of ?P "\<lambda>e. print_line ''Program interrupted by user''"
        "run fuel w bc rc" is_KeyboardInterrupt init] print
    by blast
  obtain d4 where d4: "trace (snd (controller_main fuel w bc rc)) =
      trace (snd (?guarded init)) @ d4" "list_all ?P d4"
    using tail_try_finally[OF appends_cleanup, of ?guarded w init]
    by (auto simp: controller_main_def)
  from d1 d2 d3 d4 have "trace (snd (controller_main fuel w bc rc)) =
      trace (snd (run_try fuel w bc rc init)) @ (d1 @ d2 @ d3 @ d4) \<and>
      list_all ?P (d1 @ d2 @ d3 @ d4)"
    by simp
  then show ?thesis by blast
qed

text \<open>
  C7. On the trace of a whole program run, whatever the world does and however long the
  run is followed: when no connection was opened nothing is sent to the actuator; when
  the connection was opened the motion mode is set exactly once, the mode switch is the
  first command sent, all later commands are movement commands, and there are movement
  commands only when the mode switch was accepted. Within one call of \<^verbatim>\<open>move_forward\<close>
  the forward command comes first and its stop command, when there is one, directly after
  it: nothing else is sent in between.
\<close>

theorem mode_set_once_then_move_stop:
  "mode_set_first (trace (snd (controller_main fuel w bc rc)))
   \<and> (if robot_conn s then
        (\<exists>e. filter is_dispatch (new_events s (move_forward w rc s)) =
              [Ext (Sport_move (move_speed rc) 0 0) (Some e)])
        \<or> filter is_dispatch (new_events s (move_forward w rc s)) =
              [Ext (Sport_move (move_speed rc) 0 0) None]
        \<or> (\<exists>outcome. filter is_dispatch (new_events s (move_forward w rc s)) =
              [Ext (Sport_move (move_speed rc) 0 0) None, Ext (Sport_move 0 0 0) outcome])
      else filter is_dispatch (new_events s (move_forward w rc s)) = [])"
proof
  obtain d where "trace (snd (controller_main fuel w bc rc)) =
         trace (snd (run_try fuel w bc rc init)) @ d"
       "list_all (\<lambda>ev. \<not> is_dispatch ev \<and> \<not> is_connect ev) d"
    using controller_main_tail[of fuel w bc rc] by blast
  moreover have "mode_set_first (trace (snd (run_try fuel w bc rc init)))"
    by (rule run_try_mode_set_first) (simp add: init_def)
  ultimately show "mode_set_first (trace (snd (controller_main fuel w bc rc)))"
    by (simp add: mode_set_first_quiet)
next
  show "if robot_conn s then
        (\<exists>e. filter is_dispatch (new_events s (move_forward w rc s)) =
              [Ext (Sport_move (move_speed rc) 0 0) (Some e)])
        \<or> filter is_dispatch (new_events s (move_forward w rc s)) =
              [Ext (Sport_move (move_speed rc) 0 0) None]
        \<or> (\<exists>outcome. filter is_dispatch (new_events s (move_forward w rc s)) =
              [Ext (Sport_move (move_speed rc) 0 0) None, Ext (Sport_move 0 0 0) outcome])
      else filter is_dispatch (new_events s (move_forward w rc s)) = []"
  proof (cases "robot_conn s")
    case True
    then obtain d where d: "trace (snd (move_forward w rc s)) = trace s @ d"
      and shape: "(\<exists>e. filter is_dispatch d = [Ext (Sport_move (move_speed rc) 0 0) (Some e)])
        \<or> filter is_dispatch d = [Ext (Sport_move (move_speed rc) 0 0) None]
        \<or> (\<exists>outcome. filter is_dispatch d =
              [Ext (Sport_move (move_speed rc) 0 0) None, Ext (Sport_move 0 0 0) outcome])"
      using move_forward_shape[of s w rc] by blast
    from d have "new_events s (move_forward w rc s) = d" by (rule new_events_appended)
    with shape True show ?thesis by simp
  next
    case False
    then show ?thesis
      by (simp add: move_forward_def prog_defs new_events_def is_dispatch_def)
  qed
qed

theorem mode_set_once_then_move_stop_witness:
  "mode_set_first (trace (snd (main 5 scenario_A)))
   \<and> filter is_dispatch (trace (snd (main 5 scenario_A))) =
       [Ext (Motion_switcher ''normal'') None, Ext (Sport_move 0.5 0 0) None,
        Ext (Sport_move 0 0 0) None]
   \<and> filter is_dispatch (new_events live (move_forward calm main_robot_config live)) =
       [Ext (Sport_move 0.5 0 0) None, Ext (Sport_move 0 0 0) None]"
proof -
  have 1: "filter is_dispatch (trace (snd (main 5 scenario_A))) =
       [Ext (Motion_switcher ''normal'') None, Ext (Sport_move 0.5 0 0) None,
        Ext (Sport_move 0 0 0) None]"
    by (simp add: brainflow_defs prog_defs world_defs is_dispatch_def eval_nat_numeral)
  have 2: "filter is_dispatch (new_events live (move_forward calm main_robot_config live)) =
       [Ext (Sport_move 0.5 0 0) None, Ext (Sport_move 0 0 0) None]"
    by (simp add: move_forward_def prog_defs world_defs new_events_def is_dispatch_def)
  from mode_set_once_then_move_stop
      [where fuel = 5 and w = scenario_A and bc = main_bci_config and rc = main_robot_config
         and s = live]
  have "mode_set_first (trace (snd (main 5 scenario_A)))"
    by (simp add: main_def)
  with 1 2 show ?thesis by blast
qed

section \<open>A failed setup\<close>

lemma andthen_assoc: "andthen m (andthen n k) = andthen (andthen m n) k"
proof (rule ext)
  fix s
  show "andthen m (andthen n k) s = andthen (andthen m n) k s"
    by (cases "m s"; cases "fst (m s)") (simp_all add: andthen_def bind_def)
qed

lemma andthen_raised:
  "fst (m s) = Raise e \<Longrightarrow> andthen m n s = (Raise e, snd (m s))"
  by (cases "m s") (simp add: andthen_def bind_def)

lemma logged_then_finally:
  fixes fin :: "(unit, 'a controller_scheme) prog"
  assumes "fst (m s) = Raise Error"
  shows "try_finally (try_except m is_Exception (\<lambda>e. log_error msg)) fin s =
     fin ((snd (m s))\<lparr>trace := trace (snd (m s)) @ [Log_error msg]\<rparr>)"
proof -
  let ?s' = "(snd (m s))\<lparr>trace := trace (snd (m s)) @ [Log_error msg]\<rparr>"
  from assms have "try_except m is_Exception (\<lambda>e. log_error msg) s = (Ret (), ?s')"
    by (cases "m s") (simp add: try_except_def log_error_def emit_def)
  then have "try_finally (try_except m is_Exception (\<lambda>e. log_error msg)) fin s =
      after_res (Ret ()) (fin ?s')"
    by (simp add: try_finally_def)
  also have "\<dots> = fin ?s'"
    by (cases "fin ?s'"; cases "fst (fin ?s')") simp_all
  finally show ?thesis .
qed

lemma first_failure_all_return:
  assumes "\<forall>tr. \<forall>c \<in> set cs. raises w tr c = None"
  shows "fst (first_failure w cs tr) = Ret ()"
  using assms by (induction cs arbitrary: tr) simp_all

lemma cleanup_returns:
  assumes "\<forall>tr. raises w tr Stop_stream = None \<and> raises w tr Release_session = None \<and>
      raises w tr Model_release = None \<and> raises w tr Disconnect = None"
  shows "fst (cleanup w s) = Ret ()"
proof -
  let ?ff = "first_failure w (teardown_plan s) (trace s @ [Invoke_cleanup])"
  from assms have "\<forall>tr. \<forall>c \<in> set (teardown_plan s). raises w tr c = None"
    by (auto simp: teardown_plan_def)
  then have "fst ?ff = Ret ()" by (rule first_failure_all_return)
  then show ?thesis by (cases ?ff) (simp add: cleanup_first_failure)
qed

lemma emotiv_cleanup_returns:
  assumes "\<forall>tr. raises w tr Cortex_close = None \<and> raises w tr Disconnect = None"
  shows "fst (emotiv_cleanup w s) = Ret ()"
proof -
  let ?ff = "first_failure w (emotiv_teardown_plan s) (trace s @ [Invoke_cleanup])"
  from assms have "\<forall>tr. \<forall>c \<in> set (emotiv_teardown_plan s). raises w tr c = None"
    by (auto simp: emotiv_teardown_plan_def)
  then have "fst ?ff = Ret ()" by (rule first_failure_all_return)
  then show ?thesis by (cases ?ff) (simp add: emotiv_cleanup_first_failure)
qed

lemma appends_cortex_call:
  assumes "\<And>outcome. P (Ext c outcome)"
  shows "appends P (cortex_call w c)"
  unfolding cortex_call_def[abs_def]
  by (intro appends_if appends_extcall appends_raise assms)

lemma appends_cortex_query:
  assumes "\<And>outcome. P (Ext c outcome)"
  shows "appends P (cortex_query c answer)"
  unfolding cortex_query_def[abs_def]
  by (intro appends_if appends_extval_at appends_raise assms)

lemma appends_first_headset_id: "appends P (first_headset_id headsets)"
  unfolding first_headset_id_def
  by (cases "map_of (hd headsets) ''id''") (simp_all add: appends_ret appends_raise)

lemma appends_emotiv_setup_training:
  "appends (\<lambda>ev. \<not> is_dispatch ev \<and> \<not> is_cleanup_entry ev \<and> \<not> is_connect ev)
     (emotiv_setup_training w ec)"
  unfolding emotiv_setup_training_def log_info_def log_error_def
  by (intro appends_intros appends_cortex_call) (simp_all add: is_dispatch_def)

lemma appends_emotiv_setup_bci:
  "appends (\<lambda>ev. \<not> is_dispatch ev \<and> \<not> is_cleanup_entry ev \<and> \<not> is_connect ev)
     (emotiv_setup_bci w ec)"
  unfolding emotiv_setup_bci_def log_info_def log_error_def
  by (intro appends_intros appends_cortex_call appends_cortex_query appends_first_headset_id
        appends_emotiv_setup_training)
     (simp_all add: is_dispatch_def)

lemma appends_setup:
  "appends (\<lambda>ev. \<not> is_movement ev) (andthen (setup_bci w) (setup_robot w))"
  by (intro appends_andthen appends_weaken[OF appends_setup_bci]
        appends_weaken[OF appends_setup_robot])
     (simp_all add: is_dispatch_def)

lemma appends_emotiv_setup:
  "appends (\<lambda>ev. \<not> is_movement ev) (andthen (emotiv_setup_bci w ec) (setup_robot w))"
  by (intro appends_andthen appends_weaken[OF appends_emotiv_setup_bci]
        appends_weaken[OF appends_setup_robot])
     (simp_all add: is_dispatch_def)

lemma no_movement_after_logged_cleanup:
  assumes m: "appends (\<lambda>ev. \<not> is_movement ev) m"
    and fin: "appends (\<lambda>ev. \<not> is_dispatch ev \<and> \<not> is_connect ev) fin"
  shows "filter is_movement
     (new_events s (fin ((snd (m s))\<lparr>trace := trace (snd (m s)) @ [Log_error msg]\<rparr>))) = []"
proof -
  let ?s' = "(snd (m s))\<lparr>trace := trace (snd (m s)) @ [Log_error msg]\<rparr>"
  from m obtain d where d: "trace (snd (m s)) = trace s @ d" "list_all (\<lambda>ev. \<not> is_movement ev) d"
    by (rule appendsD)
  from fin obtain d' where d': "trace (snd (fin ?s')) = trace ?s' @ d'"
    "list_all (\<lambda>ev. \<not> is_dispatch ev \<and> \<not> is_connect ev) d'"
    by (rule appendsD)
  have "filter is_movement d = []" using d(2) by (simp add: filter_none)
  moreover have "filter is_movement d' = []"
    using d'(2) by (rule filter_none) (simp add: is_dispatch_def)
  ultimately show ?thesis using d(1) d'(1) by (simp add: new_events_def)
qed

lemma setup_failure_run:
  "(fst (andthen (setup_bci w) (setup_robot w) s) = Raise Error \<longrightarrow>
      run fuel w bc rc s =
        cleanup w ((snd (andthen (setup_bci w) (setup_robot w) s))
          \<lparr>trace := trace (snd (andthen (setup_bci w) (setup_robot w) s)) @
                    [Log_error ''Runtime error'']\<rparr>)
      \<and> filter is_movement (new_events s (run fuel w bc rc s)) = []
      \<and> ((\<forall>tr. raises w tr Stop_stream = None \<and> raises w tr Release_session = None \<and>
              raises w tr Model_release = None \<and> raises w tr Disconnect = None) \<longrightarrow>
           fst (run fuel w bc rc s) = Ret ()))
   \<and>
   (fst (andthen (emotiv_setup_bci w ec) (setup_robot w) t) = Raise Error \<longrightarrow>
      emotiv_run fuel w ec rc t =
        emotiv_cleanup w ((snd (andthen (emotiv_setup_bci w ec) (setup_robot w) t))
          \<lparr>trace := trace (snd (andthen (emotiv_setup_bci w ec) (setup_robot w) t)) @
                    [Log_error ''Runtime error'']\<rparr>)
      \<and> filter is_movement (new_events t (emotiv_run fuel w ec rc t)) = []
      \<and> ((\<forall>tr. raises w tr Cortex_close = None \<and> raises w tr Disconnect = None) \<longrightarrow>
           fst (emotiv_run fuel w ec rc t) = Ret ()))"
proof (intro conjI impI)
  let ?prepare = "andthen (setup_bci w) (setup_robot w)"
  let ?s' = "(snd (?prepare s))\<lparr>trace := trace (snd (?prepare s)) @ [Log_error ''Runtime error'']\<rparr>"
  assume a: "fst (?prepare s) = Raise Error"
  have "run_try fuel w bc rc =
      andthen ?prepare
        (andthen (\<lambda>s. ret () (s\<lparr>running := True\<rparr>))
          (andthen (log_info ''Starting brain activity monitoring...'')
             (monitor_loop fuel w bc rc)))"
    by (simp add: run_try_def andthen_assoc)
  with a have "run_try fuel w bc rc s = (Raise Error, snd (?prepare s))"
    by (simp add: andthen_raised)
  then have "fst (run_try fuel w bc rc s) = Raise Error"
    and "snd (run_try fuel w bc rc s) = snd (?prepare s)"
    by simp_all
  then show r: "run fuel w bc rc s = cleanup w ?s'"
    using logged_then_finally[of "run_try fuel w bc rc" s "''Runtime error''" "cleanup w"]
    by (simp add: run_def)
  show "filter is_movement (new_events s (run fuel w bc rc s)) = []"
    unfolding r by (rule no_movement_after_logged_cleanup[OF appends_setup appends_cleanup])
  {
    assume "\<forall>tr. raises w tr Stop_stream = None \<and> raises w tr Release_session = None \<and>
              raises w tr Model_release = None \<and> raises w tr Disconnect = None"
    then show "fst (run fuel w bc rc s) = Ret ()"
      unfolding r by (rule cleanup_returns)
  }
next
  let ?prepare = "andthen (emotiv_setup_bci w ec) (setup_robot w)"
  let ?t' = "(snd (?prepare t))\<lparr>trace := trace (snd (?prepare t)) @ [Log_error ''Runtime error'']\<rparr>"
  assume a: "fst (?prepare t) = Raise Error"
  have "emotiv_run_try fuel w ec rc =
      andthen ?prepare
        (andthen (\<lambda>s. ret () (s\<lparr>running := True\<rparr>))
          (andthen (log_info ''Starting mental command monitoring...'')
             (andthen (cortex_call w Subscribe) (command_loop fuel w ec rc))))"
    by (simp add: emotiv_run_try_def andthen_assoc)
  with a have "emotiv_run_try fuel w ec rc t = (Raise Error, snd (?prepare t))"
    by (simp add: andthen_raised)
  then have "fst (emotiv_run_try fuel w ec rc t) = Raise Error"
    and "snd (emotiv_run_try fuel w ec rc t) = snd (?prepare t)"
    by simp_all
  then show r: "emotiv_run fuel w ec rc t = emotiv_cleanup w ?t'"
    using logged_then_finally[of "emotiv_run_try fuel w ec rc" t "''Runtime error''"
        "emotiv_cleanup w"]
    by (simp add: emotiv_run_def)
  show "filter is_movement (new_events t (emotiv_run fuel w ec rc t)) = []"
    unfolding r
    by (rule no_movement_after_logged_cleanup[OF appends_emotiv_setup appends_emotiv_cleanup])
  {
    assume "\<forall>tr. raises w tr Cortex_close = None \<and> raises w tr Disconnect = None"
    then show "fst (emotiv_run fuel w ec rc t) = Ret ()"
      unfolding r by (rule emotiv_cleanup_returns)
  }
qed


lemma emotiv_cleanup_events:
  "(fst (emotiv_cleanup w s) = Ret () \<and>
      new_events s (emotiv_cleanup w s) =
        Invoke_cleanup # map (\<lambda>c. Ext c None) (emotiv_teardown_plan s) @
        [Log_info ''Cleanup completed''])
   \<or> (\<exists>k e. k < length (emotiv_teardown_plan s) \<and> fst (emotiv_cleanup w s) = Raise e \<and>
         new_events s (emotiv_cleanup w s) =
           Invoke_cleanup # map (\<lambda>c. Ext c None) (take k (emotiv_teardown_plan s)) @
           [Ext (emotiv_teardown_plan s ! k) (Some e)])"
proof -
  from finish_cleanup_cases[OF first_failure_cases, of w "emotiv_teardown_plan s"
      "trace s @ [Invoke_cleanup]" s]
  have "(fst (emotiv_cleanup w s) = Ret () \<and>
      trace (snd (emotiv_cleanup w s)) =
        (trace s @ [Invoke_cleanup]) @ map (\<lambda>c. Ext c None) (emotiv_teardown_plan s) @
        [Log_info ''Cleanup completed''])
   \<or> (\<exists>k e. k < length (emotiv_teardown_plan s) \<and> fst (emotiv_cleanup w s) = Raise e \<and>
        trace (snd (emotiv_cleanup w s)) =
          (trace s @ [Invoke_cleanup]) @ map (\<lambda>c. Ext c None) (take k (emotiv_teardown_plan s)) @
          [Ext (emotiv_teardown_plan s ! k) (Some e)])"
    by (simp only: emotiv_cleanup_first_failure)
  then show ?thesis
  proof (elim disjE exE conjE)
    assume "fst (emotiv_cleanup w s) = Ret ()"
      "trace (snd (emotiv_cleanup w s)) =
        (trace s @ [Invoke_cleanup]) @ map (\<lambda>c. Ext c None) (emotiv_teardown_plan s) @
        [Log_info ''Cleanup completed'']"
    then show ?thesis by (simp add: new_events_def)
  next
    fix k e
    assume "k < length (emotiv_teardown_plan s)" "fst (emotiv_cleanup w s) = Raise e"
      "trace (snd (emotiv_cleanup w s)) =
          (trace s @ [Invoke_cleanup]) @ map (\<lambda>c. Ext c None) (take k (emotiv_teardown_plan s)) @
          [Ext (emotiv_teardown_plan s ! k) (Some e)]"
    then have "k < length (emotiv_teardown_plan s) \<and> fst (emotiv_cleanup w s) = Raise e \<and>
         new_events s (emotiv_cleanup w s) =
           Invoke_cleanup # map (\<lambda>c. Ext c None) (take k (emotiv_teardown_plan s)) @
           [Ext (emotiv_teardown_plan s ! k) (Some e)]"
      by (simp add: new_events_def)
    then show ?thesis by blast
  qed
qed

lemma setup_failure_teardown:
  "(fst (andthen (setup_bci w) (setup_robot w) s) = Raise Error \<longrightarrow>
      (fst (run fuel w bc rc s) = Ret () \<and>
       new_events
           ((snd (andthen (setup_bci w) (setup_robot w) s))
              \<lparr>trace := trace (snd (andthen (setup_bci w) (setup_robot w) s)) @
                        [Log_error ''Runtime error'']\<rparr>)
           (run fuel w bc rc s) =
         Invoke_cleanup # map (\<lambda>c. Ext c None)
           (teardown_plan (snd (andthen (setup_bci w) (setup_robot w) s))) @
         [Log_info ''Cleanup completed''])
      \<or> (\<exists>k e. k < length (teardown_plan (snd (andthen (setup_bci w) (setup_robot w) s))) \<and>
            fst (run fuel w bc rc s) = Raise e \<and>
            new_events
              ((snd (andthen (setup_bci w) (setup_robot w) s))
              \<lparr>trace := trace (snd (andthen (setup_bci w) (setup_robot w) s)) @
                        [Log_error ''Runtime error'']\<rparr>)
              (run fuel w bc rc s) =
              Invoke_cleanup # map (\<lambda>c. Ext c None)
                (take k (teardown_plan (snd (andthen (setup_bci w) (setup_robot w) s)))) @
              [Ext ((teardown_plan (snd (andthen (setup_bci w) (setup_robot w) s))) ! k) (Some e)]))
   \<and>
   (fst (andthen (emotiv_setup_bci w ec) (setup_robot w) t) = Raise Error \<longrightarrow>
      (fst (emotiv_run fuel w ec rc t) = Ret () \<and>
       new_events
           ((snd (andthen (emotiv_setup_bci w ec) (setup_robot w) t))
              \<lparr>trace := trace (snd (andthen (emotiv_setup_bci w ec) (setup_robot w) t)) @
                        [Log_error ''Runtime error'']\<rparr>)
           (emotiv_run fuel w ec rc t) =
         Invoke_cleanup # map (\<lambda>c. Ext c None)
           (emotiv_teardown_plan (snd (andthen (emotiv_setup_bci w ec) (setup_robot w) t))) @
         [Log_info ''Cleanup completed''])
      \<or> (\<exists>k e. k < length (emotiv_teardown_plan (snd (andthen (emotiv_setup_bci w ec) (setup_robot w) t))) \<and>
            fst (emotiv_run fuel w ec rc t) = Raise e \<and>
            new_events
              ((snd (andthen (emotiv_setup_bci w ec) (setup_robot w) t))
              \<lparr>trace := trace (snd (andthen (emotiv_setup_bci w ec) (setup_robot w) t)) @
                        [Log_error ''Runtime error'']\<rparr>)
              (emotiv_run fuel w ec rc t) =
              Invoke_cleanup # map (\<lambda>c. Ext c None)
                (take k (emotiv_teardown_plan (snd (andthen (emotiv_setup_bci w ec) (setup_robot w) t)))) @
              [Ext ((emotiv_teardown_plan (snd (andthen (emotiv_setup_bci w ec) (setup_robot w) t))) ! k) (Some e)]))"
proof (intro conjI impI)
  let ?prepare = "andthen (setup_bci w) (setup_robot w)"
  let ?s' = "(snd (?prepare s))\<lparr>trace := trace (snd (?prepare s)) @ [Log_error ''Runtime error'']\<rparr>"
  assume "fst (?prepare s) = Raise Error"
  then have r: "run fuel w bc rc s = cleanup w ?s'"
    using setup_failure_run[of w s fuel bc rc] by blast
  have "teardown_plan ?s' = teardown_plan (snd (?prepare s))"
    by (simp add: teardown_plan_def)
  with cleanup_events[of w ?s']
  show "(fst (run fuel w bc rc s) = Ret () \<and>
       new_events ?s' (run fuel w bc rc s) =
         Invoke_cleanup # map (\<lambda>c. Ext c None) (teardown_plan (snd (?prepare s))) @
         [Log_info ''Cleanup completed''])
      \<or> (\<exists>k e. k < length (teardown_plan (snd (?prepare s))) \<and>
            fst (run fuel w bc rc s) = Raise e \<and>
            new_events ?s' (run fuel w bc rc s) =
              Invoke_cleanup # map (\<lambda>c. Ext c None)
                (take k (teardown_plan (snd (?prepare s)))) @
              [Ext (teardown_plan (snd (?prepare s)) ! k) (Some e)])"
    by (simp only: r)
next
  let ?prepare = "andthen (emotiv_setup_bci w ec) (setup_robot w)"
  let ?t' = "(snd (?prepare t))\<lparr>trace := trace (snd (?prepare t)) @ [Log_error ''Runtime error'']\<rparr>"
  assume "fst (?prepare t) = Raise Error"
  then have r: "emotiv_run fuel w ec rc t = emotiv_cleanup w ?t'"
    using setup_failure_run[of w _ fuel _ rc ec t] by blast
  have "emotiv_teardown_plan ?t' = emotiv_teardown_plan (snd (?prepare t))"
    by (simp add: emotiv_teardown_plan_def)
  with emotiv_cleanup_events[of w ?t']
  show "(fst (emotiv_run fuel w ec rc t) = Ret () \<and>
       new_events ?t' (emotiv_run fuel w ec rc t) =
         Invoke_cleanup # map (\<lambda>c. Ext c None) (emotiv_teardown_plan (snd (?prepare t))) @
         [Log_info ''Cleanup completed''])
      \<or> (\<exists>k e. k < length (emotiv_teardown_plan (snd (?prepare t))) \<and>
            fst (emotiv_run fuel w ec rc t) = Raise e \<and>
            new_events ?t' (emotiv_run fuel w ec rc t) =
              Invoke_cleanup # map (\<lambda>c. Ext c None)
                (take k (emotiv_teardown_plan (snd (?prepare t)))) @
              [Ext (emotiv_teardown_plan (snd (?prepare t)) ! k) (Some e)])"
    by (simp only: r)
qed

lemma try_finally_returns:
  assumes "fst (m s) = Ret a" "fst (fin (snd (m s))) = Ret ()"
  shows "fst (try_finally m fin s) = Ret a"
  using assms
  by (cases "m s"; cases "fin (snd (m s))") (simp_all add: try_finally_def)

lemma try_except_returned:
  "fst (m s) = Ret a \<Longrightarrow> try_except m catches h s = m s"
  by (cases "m s") (simp add: try_except_def)

lemma appends_process_mental_commands:
  "appends (\<lambda>ev. \<not> is_mode_set ev \<and> \<not> is_cleanup_entry ev \<and> \<not> is_connect ev)
     (process_mental_commands w ec rc mental_command_data)"
proof (rule appendsI)
  fix s :: emotiv_controller
  let ?P = "\<lambda>ev. \<not> is_mode_set ev \<and> \<not> is_cleanup_entry ev \<and> \<not> is_connect ev"
  show "\<exists>d. trace (snd (process_mental_commands w ec rc mental_command_data s)) = trace s @ d \<and>
      list_all ?P d"
  proof (cases "\<exists>d. mental_command_data = Some d \<and> d \<noteq> [] \<and>
        dict_get d ''command'' PNone = PStr ''push'' \<and>
        py_ge (dict_get d ''power'' (PNum 0)) (emotiv_command_threshold ec) = Inr True")
    case False
    then have "snd (process_mental_commands w ec rc mental_command_data s) = s"
      by (rule process_mental_commands_idle)
    then show ?thesis by simp
  next
    case True
    then have "process_mental_commands w ec rc mental_command_data s =
        andthen (log_info ''Push command detected'') (move_forward w rc) s"
      by (auto simp: process_mental_commands_trigger)
    moreover have "appends ?P (andthen (log_info ''Push command detected'') (move_forward w rc))"
      unfolding log_info_def by (intro appends_intros appends_move_forward) simp
    ultimately show ?thesis by (auto elim: appendsD)
  qed
qed

lemma emotiv_main_tail:
  "\<exists>d. trace (snd (emotiv_main fuel w ec rc)) =
         trace (snd (emotiv_run_try fuel w ec rc emotiv_init)) @ d \<and>
       list_all (\<lambda>ev. \<not> is_dispatch ev \<and> \<not> is_connect ev) d"
proof -
  let ?P = "\<lambda>ev. \<not> is_dispatch ev \<and> \<not> is_connect ev"
  let ?body = "try_except (emotiv_run_try fuel w ec rc) is_Exception
      (\<lambda>e. log_error ''Runtime error'')"
  let ?guarded = "try_except (emotiv_run fuel w ec rc) is_KeyboardInterrupt
      (\<lambda>e. print_line ''Program interrupted by user'')"
  have log: "appends ?P (log_error msg)" for msg
    unfolding log_error_def by (rule appends_emit) (simp add: is_dispatch_def)
  have print: "appends ?P (print_line msg)" for msg
    unfolding print_line_def by (rule appends_emit) (simp add: is_dispatch_def)
  obtain d1 where d1: "trace (snd (?body emotiv_init)) =
      trace (snd (emotiv_run_try fuel w ec rc emotiv_init)) @ d1" "list_all ?P d1"
    using tail_try_except[of ?P "\<lambda>e. log_error ''Runtime error''" "emotiv_run_try fuel w ec rc"
        is_Exception emotiv_init] log
    by blast
  obtain d2 where d2: "trace (snd (emotiv_run fuel w ec rc emotiv_init)) =
      trace (snd (?body emotiv_init)) @ d2" "list_all ?P d2"
    using tail_try_finally[OF appends_emotiv_cleanup, of ?body w emotiv_init]
    by (auto simp: emotiv_run_def)
  obtain d3 where d3: "trace (snd (?guarded emotiv_init)) =
      trace (snd (emotiv_run fuel w ec rc emotiv_init)) @ d3" "list_all ?P d3"
    using tail_try_except[of ?P "\<lambda>e. print_line ''Program interrupted by user''"
        "emotiv_run fuel w ec rc" is_KeyboardInterrupt emotiv_init] print
    by blast
  obtain d4 where d4: "trace (snd (emotiv_main fuel w ec rc)) =
      trace (snd (?guarded emotiv_init)) @ d4" "list_all ?P d4"
    using tail_try_finally[OF appends_emotiv_cleanup, of ?guarded w emotiv_init]
    by (auto simp: emotiv_main_def)
  from d1 d2 d3 d4 have "trace (snd (emotiv_main fuel w ec rc)) =
      trace (snd (emotiv_run_try fuel w ec rc emotiv_init)) @ (d1 @ d2 @ d3 @ d4) \<and>
      list_all ?P (d1 @ d2 @ d3 @ d4)"
    by simp
  then show ?thesis by blast
qed

lemma run_try_on_setup_failure:
  assumes "fst (andthen (setup_bci w) (setup_robot w) s) = Raise Error"
  shows "run_try fuel w bc rc s = (Raise Error, snd (andthen (setup_bci w) (setup_robot w) s))"
proof -
  have "run_try fuel w bc rc =
      andthen (andthen (setup_bci w) (setup_robot w))
        (andthen (\<lambda>s. ret () (s\<lparr>running := True\<rparr>))
          (andthen (log_info ''Starting brain activity monitoring...'')
             (monitor_loop fuel w bc rc)))"
    by (simp add: run_try_def andthen_assoc)
  with assms show ?thesis by (simp add: andthen_raised)
qed

lemma emotiv_run_try_on_setup_failure:
  assumes "fst (andthen (emotiv_setup_bci w ec) (setup_robot w) t) = Raise Error"
  shows "emotiv_run_try fuel w ec rc t =
     (Raise Error, snd (andthen (emotiv_setup_bci w ec) (setup_robot w) t))"
proof -
  have "emotiv_run_try fuel w ec rc =
      andthen (andthen (emotiv_setup_bci w ec) (setup_robot w))
        (andthen (\<lambda>s. ret () (s\<lparr>running := True\<rparr>))
          (andthen (log_info ''Starting mental command monitoring...'')
             (andthen (cortex_call w Subscribe) (command_loop fuel w ec rc))))"
    by (simp add: emotiv_run_try_def andthen_assoc)
  with assms show ?thesis by (simp add: andthen_raised)
qed

lemma setup_failure_main:
  "(fst (andthen (setup_bci w) (setup_robot w) init) = Raise Error \<longrightarrow>
      filter is_movement (trace (snd (controller_main fuel w bc rc))) = []
      \<and> ((\<forall>tr. raises w tr Stop_stream = None \<and> raises w tr Release_session = None \<and>
              raises w tr Model_release = None \<and> raises w tr Disconnect = None) \<longrightarrow>
           fst (controller_main fuel w bc rc) = Ret ()))
   \<and>
   (fst (andthen (emotiv_setup_bci w ec) (setup_robot w) emotiv_init) = Raise Error \<longrightarrow>
      filter is_movement (trace (snd (emotiv_main fuel w ec rc))) = []
      \<and> ((\<forall>tr. raises w tr Cortex_close = None \<and> raises w tr Disconnect = None) \<longrightarrow>
           fst (emotiv_main fuel w ec rc) = Ret ()))"
proof (intro conjI impI)
  let ?prepare = "andthen (setup_bci w) (setup_robot w)"
  assume a: "fst (?prepare init) = Raise Error"
  obtain d0 where d0: "trace (snd (?prepare init)) = trace init @ d0"
    "list_all (\<lambda>ev. \<not> is_movement ev) d0"
    using appends_setup[of w] by (rule appendsD)
  obtain d where d: "trace (snd (controller_main fuel w bc rc)) =
      trace (snd (run_try fuel w bc rc init)) @ d"
    "list_all (\<lambda>ev. \<not> is_dispatch ev \<and> \<not> is_connect ev) d"
    using controller_main_tail[of fuel w bc rc] by blast
  have "filter is_movement d0 = []" using d0(2) by (simp add: filter_none)
  moreover have "filter is_movement d = []"
    using d(2) by (rule filter_none) (simp add: is_dispatch_def)
  ultimately show "filter is_movement (trace (snd (controller_main fuel w bc rc))) = []"
    using d(1) d0(1) run_try_on_setup_failure[OF a, of fuel bc rc] by (simp add: init_def)
  {
    assume td: "\<forall>tr. raises w tr Stop_stream = None \<and> raises w tr Release_session = None \<and>
              raises w tr Model_release = None \<and> raises w tr Disconnect = None"
    with a have "fst (run fuel w bc rc init) = Ret ()"
      using setup_failure_run[of w init fuel bc rc] by blast
    then have "fst (try_except (run fuel w bc rc) is_KeyboardInterrupt
        (\<lambda>e. print_line ''Program interrupted by user'') init) = Ret ()"
      by (simp add: try_except_returned)
    moreover have "fst (cleanup w s') = Ret ()" for s'
      using td by (rule cleanup_returns)
    ultimately show "fst (controller_main fuel w bc rc) = Ret ()"
      by (simp add: controller_main_def try_finally_returns)
  }
next
  let ?prepare = "andthen (emotiv_setup_bci w ec) (setup_robot w)"
  assume a: "fst (?prepare emotiv_init) = Raise Error"
  obtain d0 where d0: "trace (snd (?prepare emotiv_init)) = trace emotiv_init @ d0"
    "list_all (\<lambda>ev. \<not> is_movement ev) d0"
    using appends_emotiv_setup[of w ec] by (rule appendsD)
  obtain d where d: "trace (snd (emotiv_main fuel w ec rc)) =
      trace (snd (emotiv_run_try fuel w ec rc emotiv_init)) @ d"
    "list_all (\<lambda>ev. \<not> is_dispatch ev \<and> \<not> is_connect ev) d"
    using emotiv_main_tail[of fuel w ec rc] by blast
  have "filter is_movement d0 = []" using d0(2) by (simp add: filter_none)
  moreover have "filter is_movement d = []"
    using d(2) by (rule filter_none) (simp add: is_dispatch_def)
  ultimately show "filter is_movement (trace (snd (emotiv_main fuel w ec rc))) = []"
    using d(1) d0(1) emotiv_run_try_on_setup_failure[OF a, of fuel rc]
    by (simp add: emotiv_init_def)
  {
    assume td: "\<forall>tr. raises w tr Cortex_close = None \<and> raises w tr Disconnect = None"
    with a have "fst (emotiv_run fuel w ec rc emotiv_init) = Ret ()"
      using setup_failure_run[of w _ fuel _ rc ec emotiv_init] by blast
    then have "fst (try_except (emotiv_run fuel w ec rc) is_KeyboardInterrupt
        (\<lambda>e. print_line ''Program interrupted by user'') emotiv_init) = Ret ()"
      by (simp add: try_except_returned)
    moreover have "fst (emotiv_cleanup w s') = Ret ()" for s'
      using td by (rule emotiv_cleanup_returns)
    ultimately show "fst (emotiv_main fuel w ec rc) = Ret ()"
      by (simp add: emotiv_main_def try_finally_returns)
  }
qed

text \<open>
  C6 (as the code has it). When the setup of the signal source or of the actuator fails
  with an error, \<^verbatim>\<open>run\<close> never enters its loop: the error is logged as a runtime error
  and \<^verbatim>\<open>run\<close> is what \<^verbatim>\<open>cleanup\<close> is from there. No movement command is sent, in
  \<^verbatim>\<open>run\<close> and in the whole of \<^verbatim>\<open>main\<close>. The cleanup of \<^verbatim>\<open>run\<close> makes the
  teardown calls of the handles the failed setup has created, in order: all of them,
  each returning, when it returns; otherwise up to the first one that raises, whose
  error \<^verbatim>\<open>run\<close> then raises. The failure is not raised to the
  caller: when the teardown calls return, \<^verbatim>\<open>run\<close> and \<^verbatim>\<open>main\<close> return normally.
  This holds for both scripts.
\<close>

theorem setup_failure_is_logged_not_raised:
  "((fst (andthen (setup_bci w) (setup_robot w) s) = Raise Error \<longrightarrow>
      run fuel w bc rc s =
        cleanup w ((snd (andthen (setup_bci w) (setup_robot w) s))
          \<lparr>trace := trace (snd (andthen (setup_bci w) (setup_robot w) s)) @
                    [Log_error ''Runtime error'']\<rparr>)
      \<and> filter is_movement (new_events s (run fuel w bc rc s)) = []
      \<and> ((\<forall>tr. raises w tr Stop_stream = None \<and> raises w tr Release_session = None \<and>
              raises w tr Model_release = None \<and> raises w tr Disconnect = None) \<longrightarrow>
           fst (run fuel w bc rc s) = Ret ()))
   \<and>
   (fst (andthen (emotiv_setup_bci w ec) (setup_robot w) t) = Raise Error \<longrightarrow>
      emotiv_run fuel w ec rc t =
        emotiv_cleanup w ((snd (andthen (emotiv_setup_bci w ec) (setup_robot w) t))
          \<lparr>trace := trace (snd (andthen (emotiv_setup_bci w ec) (setup_robot w) t)) @
                    [Log_error ''Runtime error'']\<rparr>)
      \<and> filter is_movement (new_events t (emotiv_run fuel w ec rc t)) = []
      \<and> ((\<forall>tr. raises w tr Cortex_close = None \<and> raises w tr Disconnect = None) \<longrightarrow>
           fst (emotiv_run fuel w ec rc t) = Ret ())))
   \<and>
   ((fst (andthen (setup_bci w) (setup_robot w) s) = Raise Error \<longrightarrow>
      (fst (run fuel w bc rc s) = Ret () \<and>
       new_events
           ((snd (andthen (setup_bci w) (setup_robot w) s))
              \<lparr>trace := trace (snd (andthen (setup_bci w) (setup_robot w) s)) @
                        [Log_error ''Runtime error'']\<rparr>)
           (run fuel w bc rc s) =
         Invoke_cleanup # map (\<lambda>c. Ext c None)
           (teardown_plan (snd (andthen (setup_bci w) (setup_robot w) s))) @
         [Log_info ''Cleanup completed''])
      \<or> (\<exists>k e. k < length (teardown_plan (snd (andthen (setup_bci w) (setup_robot w) s))) \<and>
            fst (run fuel w bc rc s) = Raise e \<and>
            new_events
              ((snd (andthen (setup_bci w) (setup_robot w) s))
              \<lparr>trace := trace (snd (andthen (setup_bci w) (setup_robot w) s)) @
                        [Log_error ''Runtime error'']\<rparr>)
              (run fuel w bc rc s) =
              Invoke_cleanup # map (\<lambda>c. Ext c None)
                (take k (teardown_plan (snd (andthen (setup_bci w) (setup_robot w) s)))) @
              [Ext ((teardown_plan (snd (andthen (setup_bci w) (setup_robot w) s))) ! k) (Some e)]))
   \<and>
   (fst (andthen (emotiv_setup_bci w ec) (setup_robot w) t) = Raise Error \<longrightarrow>
      (fst (emotiv_run fuel w ec rc t) = Ret () \<and>
       new_events
           ((snd (andthen (emotiv_setup_bci w ec) (setup_robot w) t))
              \<lparr>trace := trace (snd (andthen (emotiv_setup_bci w ec) (setup_robot w) t)) @
                        [Log_error ''Runtime error'']\<rparr>)
           (emotiv_run fuel w ec rc t) =
         Invoke_cleanup # map (\<lambda>c. Ext c None)
           (emotiv_teardown_plan (snd (andthen (emotiv_setup_bci w ec) (setup_robot w) t))) @
         [Log_info ''Cleanup completed''])
      \<or> (\<exists>k e. k < length (emotiv_teardown_plan (snd (andthen (emotiv_setup_bci w ec) (setup_robot w) t))) \<and>
            fst (emotiv_run fuel w ec rc t) = Raise e \<and>
            new_events
              ((snd (andthen (emotiv_setup_bci w ec) (setup_robot w) t))
              \<lparr>trace := trace (snd (andthen (emotiv_setup_bci w ec) (setup_robot w) t)) @
                        [Log_error ''Runtime error'']\<rparr>)
              (emotiv_run fuel w ec rc t) =
              Invoke_cleanup # map (\<lambda>c. Ext c None)
                (take k (emotiv_teardown_plan (snd (andthen (emotiv_setup_bci w ec) (setup_robot w) t)))) @
              [Ext ((emotiv_teardown_plan (snd (andthen (emotiv_setup_bci w ec) (setup_robot w) t))) ! k) (Some e)])))
   \<and>
   ((fst (andthen (setup_bci w) (setup_robot w) init) = Raise Error \<longrightarrow>
      filter is_movement (trace (snd (controller_main fuel w bc rc))) = []
      \<and> ((\<forall>tr. raises w tr Stop_stream = None \<and> raises w tr Release_session = None \<and>
              raises w tr Model_release = None \<and> raises w tr Disconnect = None) \<longrightarrow>
           fst (controller_main fuel w bc rc) = Ret ()))
   \<and>
   (fst (andthen (emotiv_setup_bci w ec) (setup_robot w) emotiv_init) = Raise Error \<longrightarrow>
      filter is_movement (trace (snd (emotiv_main fuel w ec rc))) = []
      \<and> ((\<forall>tr. raises w tr Cortex_close = None \<and> raises w tr Disconnect = None) \<longrightarrow>
           fst (emotiv_main fuel w ec rc) = Ret ())))"
  by (intro conjI setup_failure_run setup_failure_teardown setup_failure_main)

theorem setup_failure_is_logged_not_raised_witness:
  "fst (andthen (setup_bci (failing Connect Error)) (setup_robot (failing Connect Error)) init) =
     Raise Error
   \<and> fst (run 5 (failing Connect Error) main_bci_config main_robot_config init) = Ret ()
   \<and> filter is_movement
       (new_events init (run 5 (failing Connect Error) main_bci_config main_robot_config init)) = []
   \<and> fst (andthen (emotiv_setup_bci (failing Connect Error) main_emotiv_config)
            (setup_robot (failing Connect Error)) emotiv_init) = Raise Error
   \<and> fst (emotiv_run 5 (failing Connect Error) main_emotiv_config main_robot_config
            emotiv_init) = Ret ()
   \<and> filter is_movement
       (new_events emotiv_init
          (emotiv_run 5 (failing Connect Error) main_emotiv_config main_robot_config
             emotiv_init)) = []
   \<and> fst (main 5 (failing Connect Error)) = Ret ()
   \<and> filter is_movement (trace (snd (main 5 (failing Connect Error)))) = []
   \<and> fst (emotiv_main 5 (failing Connect Error) main_emotiv_config main_robot_config) = Ret ()
   \<and> fst (andthen (setup_bci connect_and_stop_fail) (setup_robot connect_and_stop_fail) init) =
       Raise Error
   \<and> fst (run 5 connect_and_stop_fail main_bci_config main_robot_config init) = Raise Error
   \<and> filter is_movement
       (new_events init (run 5 connect_and_stop_fail main_bci_config main_robot_config init)) = []"
proof -
  have a: "fst (andthen (setup_bci (failing Connect Error)) (setup_robot (failing Connect Error))
      init) = Raise Error"
    by (simp add: brainflow_defs prog_defs world_defs)
  have b: "fst (andthen (emotiv_setup_bci (failing Connect Error) main_emotiv_config)
            (setup_robot (failing Connect Error)) emotiv_init) = Raise Error"
    by (simp add: emotiv_defs prog_defs world_defs)
  have c: "\<forall>tr. raises (failing Connect Error) tr Stop_stream = None \<and>
      raises (failing Connect Error) tr Release_session = None \<and>
      raises (failing Connect Error) tr Model_release = None \<and>
      raises (failing Connect Error) tr Disconnect = None"
    by (simp add: world_defs)
  have d: "\<forall>tr. raises (failing Connect Error) tr Cortex_close = None \<and>
      raises (failing Connect Error) tr Disconnect = None"
    by (simp add: world_defs)
  note t = setup_failure_is_logged_not_raised
      [where w = "failing Connect Error" and s = init and t = emotiv_init and fuel = 5
         and bc = main_bci_config and rc = main_robot_config and ec = main_emotiv_config]
  from a b c d t[THEN conjunct1]
  have 1: "fst (run 5 (failing Connect Error) main_bci_config main_robot_config init) = Ret ()
   \<and> filter is_movement
       (new_events init (run 5 (failing Connect Error) main_bci_config main_robot_config init)) = []
   \<and> fst (emotiv_run 5 (failing Connect Error) main_emotiv_config main_robot_config
            emotiv_init) = Ret ()
   \<and> filter is_movement
       (new_events emotiv_init
          (emotiv_run 5 (failing Connect Error) main_emotiv_config main_robot_config
             emotiv_init)) = []"
    by blast
  from a b c d t[THEN conjunct2, THEN conjunct2]
  have 2: "fst (controller_main 5 (failing Connect Error) main_bci_config main_robot_config) =
      Ret ()
   \<and> filter is_movement
       (trace (snd (controller_main 5 (failing Connect Error) main_bci_config
          main_robot_config))) = []
   \<and> fst (emotiv_main 5 (failing Connect Error) main_emotiv_config main_robot_config) = Ret ()"
    by blast
  have e: "fst (andthen (setup_bci connect_and_stop_fail) (setup_robot connect_and_stop_fail)
      init) = Raise Error"
    by (simp add: brainflow_defs prog_defs world_defs)
  have f: "fst (run 5 connect_and_stop_fail main_bci_config main_robot_config init) =
      Raise Error"
    by (simp add: brainflow_defs prog_defs world_defs)
  note u = setup_failure_is_logged_not_raised
      [where w = connect_and_stop_fail and s = init and fuel = 5
         and bc = main_bci_config and rc = main_robot_config, THEN conjunct1, THEN conjunct1]
  from e u have 3: "filter is_movement
       (new_events init (run 5 connect_and_stop_fail main_bci_config main_robot_config init)) = []"
    by blast
  from a b e f 1 2 3 show ?thesis by (simp add: main_def)
qed

text \<open>
  C6, counterexample: the actuator's \<^verbatim>\<open>connect\<close> raises an error. The error is logged
  twice and \<^verbatim>\<open>run\<close> as well as \<^verbatim>\<open>main\<close> return normally: nothing tells the caller
  that the setup failed.
\<close>

theorem setup_failure_counterexample:
  "fst (run 5 (failing Connect Error) main_bci_config main_robot_config init) = Ret ()
   \<and> main 5 (failing Connect Error) =
     (Ret (),
      \<lparr>robot_conn = True, running = False,
       trace =
         [Ext Board_new None, Ext Prepare_session None, Ext Start_stream None,
          Ext Model_new None, Ext Model_prepare None,
          Log_info ''BCI setup completed successfully'', Ext Conn_new None,
          Ext Connect (Some Error), Log_error ''Robot setup failed'',
          Log_error ''Runtime error'', Invoke_cleanup, Ext Stop_stream None,
          Ext Release_session None, Ext Model_release None,
          Ext Disconnect None, Log_info ''Cleanup completed'', Invoke_cleanup,
          Ext Stop_stream None, Ext Release_session None,
          Ext Model_release None, Ext Disconnect None,
          Log_info ''Cleanup completed''],
       board = True, concentration_model = True\<rparr>)"
  by (simp add: brainflow_defs prog_defs world_defs)

end
